theory Spec2Isabelle
  imports Main
begin

section \<open>Python values used by \<^verbatim>\<open>rubicon_ml/viz/dataframe_plot.py\<close>\<close>

text \<open>
  Exceptions are values. The constructors are the exception classes that the statements
  of \<^verbatim>\<open>DataframePlot\<close> can raise themselves, together with the ones a collaborator
  (the experiment store, the plotting routine) may raise. A \<^verbatim>\<open>str\<close> is a
  \<^typ>\<open>string\<close>, one \<^typ>\<open>char\<close> standing for one character of the Python string.
\<close>

datatype exn =
    Exception string
  | AttributeError
  | TypeError
  | ValueError
  | IndexError
  | KeyError string
  | RubiconException string
  | KeyboardInterrupt
  | OtherError string

text \<open>\<^verbatim>\<open>xs[i]\<close> for a non-negative \<^verbatim>\<open>i\<close>: out of range raises.\<close>

definition py_index :: "'a list \<Rightarrow> nat \<Rightarrow> exn + 'a" where
  "py_index xs i = (if i < length xs then Inr (xs ! i) else Inl IndexError)"

text \<open>\<^verbatim>\<open>str(n)\<close> of a length, as the f-strings format it: decimal digits.\<close>

fun str_of_nat :: "nat \<Rightarrow> string" where
  "str_of_nat n =
     (if n < 10 then [''0123456789'' ! n]
      else str_of_nat (n div 10) @ [''0123456789'' ! (n mod 10)])"

declare str_of_nat.simps [simp del]

section \<open>Dataframes\<close>

text \<open>
  A \<^verbatim>\<open>pandas.DataFrame\<close>: the ordered column labels, and the rows in order, each with
  its index label and its cells by column label. A column label of \<open>columns\<close> on which
  a row is \<open>None\<close> is a missing value (NaN) of that row.
\<close>

datatype cell = IntC int | StrC string

type_synonym row = "string \<Rightarrow> cell option"

record table =
  columns :: "string list"
  rows :: "(cell \<times> row) list"

text \<open>\<^verbatim>\<open>df[c] = v\<close> with a scalar \<^verbatim>\<open>v\<close>: every row gets \<^verbatim>\<open>v\<close> in column \<^verbatim>\<open>c\<close>;
  a new label goes last, an existing one keeps its place.\<close>

definition set_column :: "table \<Rightarrow> string \<Rightarrow> cell \<Rightarrow> table" where
  "set_column t c v =
     \<lparr>columns = (if c \<in> set (columns t) then columns t else columns t @ [c]),
      rows = map (\<lambda>(l, r). (l, r(c \<mapsto> v))) (rows t)\<rparr>"

text \<open>\<^verbatim>\<open>pd.concat([a, b])\<close>: the rows of \<^verbatim>\<open>a\<close> then those of \<^verbatim>\<open>b\<close>, index labels
  kept; the columns of \<^verbatim>\<open>a\<close> followed by the new ones of \<^verbatim>\<open>b\<close> (an outer join, so
  a row has a missing value in a column its own frame did not have).\<close>

definition concat_tables :: "table \<Rightarrow> table \<Rightarrow> table" where
  "concat_tables a b =
     \<lparr>columns = columns a @ filter (\<lambda>c. c \<notin> set (columns a)) (columns b),
      rows = rows a @ rows b\<rparr>"

text \<open>\<^verbatim>\<open>df.reset_index(drop=True)\<close>: the index labels become 0, 1, 2, ...\<close>

definition reset_index :: "table \<Rightarrow> table" where
  "reset_index t =
     t\<lparr>rows := zip (map (\<lambda>i. IntC (int i)) [0..<length (rows t)]) (map snd (rows t))\<rparr>"

text \<open>\<^verbatim>\<open>df.empty\<close>: some axis has length 0.\<close>

definition empty_df :: "table \<Rightarrow> bool" where
  "empty_df t = (columns t = [] \<or> rows t = [])"

text \<open>\<^verbatim>\<open>df[c]\<close>: the column as a series; an unknown label raises \<^verbatim>\<open>KeyError\<close>.\<close>

definition get_column :: "table \<Rightarrow> string \<Rightarrow> exn + cell option list" where
  "get_column t c =
     (if c \<in> set (columns t) then Inr (map (\<lambda>(l, r). r c) (rows t)) else Inl (KeyError c))"

text \<open>\<^verbatim>\<open>series.isin(values)\<close> on one cell, the values being identifier strings.\<close>

definition isin :: "cell option \<Rightarrow> string list \<Rightarrow> bool" where
  "isin v ids = (case v of Some (StrC s) \<Rightarrow> s \<in> set ids | _ \<Rightarrow> False)"

text \<open>\<^verbatim>\<open>df[mask]\<close> with a boolean series: the rows at which the mask is true.\<close>

definition select_mask :: "table \<Rightarrow> bool list \<Rightarrow> table" where
  "select_mask t keep = t\<lparr>rows := map snd (filter fst (zip keep (rows t)))\<rparr>"

section \<open>Experiments, figures and the widget\<close>

text \<open>
  An experiment of the store: its \<^verbatim>\<open>id\<close> and \<^verbatim>\<open>experiment.dataframe(name=...)\<close>, which
  raises or returns a dataframe object; \<^verbatim>\<open>get_data()\<close> of that object raises or
  returns the frame.
\<close>

datatype dataframe_obj = Dataframe (get_data: "exn + table")

record experiment_t =
  exp_id :: string
  dataframe :: "string \<Rightarrow> exn + dataframe_obj"

text \<open>A plotly figure, as far as the callback touches it: the traces with their
  \<^verbatim>\<open>name\<close> (which plotly leaves \<^verbatim>\<open>None\<close> when unset), \<^verbatim>\<open>layout.margin.t\<close> and
  \<^verbatim>\<open>layout.plot_bgcolor\<close>.\<close>

record trace =
  trace_name :: "string option"

record figure =
  fig_data :: "trace list"
  margin_t :: "int option"
  plot_bgcolor :: "string option"

datatype kwarg = StrArg string | SeqArg "string list"

text \<open>
  The attributes of a \<^verbatim>\<open>DataframePlot\<close>. \<open>self_x\<close> and \<open>self_y\<close> are \<^verbatim>\<open>self.x\<close> and
  \<^verbatim>\<open>self.y\<close>; \<open>experiments\<close> is \<open>None\<close> while \<^verbatim>\<open>self.experiments\<close> is the
  constructor's default \<^verbatim>\<open>None\<close>; \<open>data_df\<close> is \<open>None\<close> while \<^verbatim>\<open>self.data_df\<close> is
  \<^verbatim>\<open>None\<close>, which is what line 93 makes it before anything else happens. The keyword
  options are the dictionary \<^verbatim>\<open>self.plotting_func_kwargs\<close> of this one widget, updated
  in place by the method and returned updated here. \<open>emitted_warnings\<close> is not an
  attribute: it records the calls of \<^verbatim>\<open>warnings.warn\<close>, in order.
\<close>

record widget =
  dataframe_name :: string
  experiments :: "experiment_t list option"
  plotting_func ::
    "table \<Rightarrow> string option \<Rightarrow> string option \<Rightarrow> (string \<Rightarrow> kwarg option) \<Rightarrow> exn + figure"
  plotting_func_kwargs :: "string \<Rightarrow> kwarg option"
  self_x :: "string option"
  self_y :: "string option"
  data_df :: "table option"
  emitted_warnings :: "string list"

section \<open>\<^verbatim>\<open>DataframePlot.load_experiment_data\<close>\<close>

text \<open>The f-string of the warning (lines 99 to 101).\<close>

definition warning_text :: "experiment_t \<Rightarrow> string" where
  "warning_text experiment =
     ''Experiment '' @ exp_id experiment @ '' does not have any dataframes logged to it.''"

text \<open>Lines 107 and 108: \<^verbatim>\<open>if self.x is None: self.x = data_df.columns[0]\<close>.\<close>

definition infer_x :: "widget \<Rightarrow> table \<Rightarrow> exn + widget" where
  "infer_x self data_df_v =
     (if self_x self = None then
        (case py_index (columns data_df_v) 0 of
           Inl e \<Rightarrow> Inl e
         | Inr c \<Rightarrow> Inr (self\<lparr>self_x := Some c\<rparr>))
      else Inr self)"

text \<open>Lines 110 and 111: \<^verbatim>\<open>if self.y is None: self.y = data_df.columns[1]\<close>.\<close>

definition infer_y :: "widget \<Rightarrow> table \<Rightarrow> exn + widget" where
  "infer_y self data_df_v =
     (if self_y self = None then
        (case py_index (columns data_df_v) 1 of
           Inl e \<Rightarrow> Inl e
         | Inr c \<Rightarrow> Inr (self\<lparr>self_y := Some c\<rparr>))
      else Inr self)"

text \<open>Lines 113 to 118: the frame becomes the combined table, or is concatenated to
  it; then the index is reset.\<close>

definition append_data :: "widget \<Rightarrow> table \<Rightarrow> widget" where
  "append_data self data_df_v =
     self\<lparr>data_df :=
       Some (reset_index
         (case data_df self of
            None \<Rightarrow> data_df_v
          | Some acc \<Rightarrow> concat_tables acc data_df_v))\<rparr>"

text \<open>
  One pass of the loop body (lines 96 to 118) for one experiment. The result is the
  exception that leaves the loop, if any, and the widget as the pass left it. Whatever
  \<^verbatim>\<open>experiment.dataframe\<close> raises is caught by the bare \<^verbatim>\<open>except\<close>; \<^verbatim>\<open>get_data\<close> and
  the column reads are outside the \<^verbatim>\<open>try\<close>.
\<close>

definition load_one :: "widget \<Rightarrow> experiment_t \<Rightarrow> exn option \<times> widget" where
  "load_one self experiment =
     (case dataframe experiment (dataframe_name self) of
        Inl _ \<Rightarrow>
          (None, self\<lparr>emitted_warnings := emitted_warnings self @ [warning_text experiment]\<rparr>)
      | Inr dataframe_v \<Rightarrow>
          (case get_data dataframe_v of
             Inl e \<Rightarrow> (Some e, self)
           | Inr fetched \<Rightarrow>
               (let data_df_v = set_column fetched ''experiment_id'' (StrC (exp_id experiment))
                in case infer_x self data_df_v of
                     Inl e \<Rightarrow> (Some e, self)
                   | Inr self1 \<Rightarrow>
                       (case infer_y self1 data_df_v of
                          Inl e \<Rightarrow> (Some e, self1)
                        | Inr self2 \<Rightarrow> (None, append_data self2 data_df_v)))))"

text \<open>The \<^verbatim>\<open>for\<close> loop of line 95: an exception ends it.\<close>

fun load_loop :: "widget \<Rightarrow> experiment_t list \<Rightarrow> exn option \<times> widget" where
  "load_loop self [] = (None, self)"
| "load_loop self (experiment # rest) =
     (case load_one self experiment of
        (Some e, self') \<Rightarrow> (Some e, self')
      | (None, self') \<Rightarrow> load_loop self' rest)"

text \<open>Lines 120 to 125: the defaults of the keyword options. \<^verbatim>\<open>get_rubicon_colorscale\<close>
  lives in \<^verbatim>\<open>rubicon_ml.viz.common.colors\<close> and is a parameter here.\<close>

definition default_kwargs ::
  "(nat \<Rightarrow> string list) \<Rightarrow> nat \<Rightarrow> (string \<Rightarrow> kwarg option) \<Rightarrow> (string \<Rightarrow> kwarg option)" where
  "default_kwargs get_rubicon_colorscale n kw =
     (let kw1 = (if ''color'' \<notin> dom kw then kw(''color'' \<mapsto> StrArg ''experiment_id'') else kw)
      in if ''color_discrete_sequence'' \<notin> dom kw1
         then kw1(''color_discrete_sequence'' \<mapsto> SeqArg (get_rubicon_colorscale n))
         else kw1)"

text \<open>The message of lines 128 and 131.\<close>

definition not_found_text :: "string \<Rightarrow> string" where
  "not_found_text name = ''No dataframe with name '' @ name @ '' found!''"

text \<open>
  Lines 126 to 131. The \<^verbatim>\<open>try\<close> body reads \<^verbatim>\<open>self.data_df.empty\<close>: on \<^verbatim>\<open>None\<close> that is
  an \<^verbatim>\<open>AttributeError\<close>, on an empty frame the body raises the \<^verbatim>\<open>Exception\<close>. The bare
  \<^verbatim>\<open>except\<close> catches either and tests \<^verbatim>\<open>self.data_df == None\<close>: true for \<^verbatim>\<open>None\<close>, and
  for a frame an elementwise comparison whose truth value pandas refuses with a
  \<^verbatim>\<open>ValueError\<close>.
\<close>

definition try_empty :: "widget \<Rightarrow> exn option" where
  "try_empty self =
     (case data_df self of
        None \<Rightarrow> Some AttributeError
      | Some df \<Rightarrow>
          if empty_df df then Some (Exception (not_found_text (dataframe_name self))) else None)"

definition check_found :: "widget \<Rightarrow> exn option" where
  "check_found self =
     (case try_empty self of
        None \<Rightarrow> None
      | Some _ \<Rightarrow>
          (case data_df self of
             None \<Rightarrow> Some (Exception (not_found_text (dataframe_name self)))
           | Some df \<Rightarrow> Some ValueError))"

text \<open>The whole method. Iterating \<^verbatim>\<open>self.experiments\<close> when it is still \<^verbatim>\<open>None\<close> (the
  constructor's default) is a \<^verbatim>\<open>TypeError\<close>.\<close>

definition load_experiment_data ::
  "(nat \<Rightarrow> string list) \<Rightarrow> widget \<Rightarrow> exn option \<times> widget" where
  "load_experiment_data get_rubicon_colorscale self0 =
     (let self = self0\<lparr>data_df := None\<rparr>
      in case experiments self of
           None \<Rightarrow> (Some TypeError, self)
         | Some es \<Rightarrow>
             (case load_loop self es of
                (Some e, self1) \<Rightarrow> (Some e, self1)
              | (None, self1) \<Rightarrow>
                  (let self2 = self1\<lparr>plotting_func_kwargs :=
                         default_kwargs get_rubicon_colorscale (length es)
                           (plotting_func_kwargs self1)\<rparr>
                   in (check_found self2, self2))))"

section \<open>The callback \<^verbatim>\<open>update_dataframe_plot\<close>\<close>

text \<open>
  The callback's \<^verbatim>\<open>*args\<close> are the values of its inputs: the children of the trigger
  element and, when linked, the selected row ids of the experiment table. Each is
  \<^verbatim>\<open>None\<close> or a list of identifiers.

  Lines 154 to 158. \<^verbatim>\<open>args[-1]\<close> is the last argument; \<^verbatim>\<open>None\<close> and the empty list
  are both falsy and give \<^verbatim>\<open>[]\<close>.
\<close>

definition selected_row_ids ::
  "bool \<Rightarrow> widget \<Rightarrow> string list option list \<Rightarrow> exn + string list" where
  "selected_row_ids link_experiment_table self args =
     (if link_experiment_table then
        (if args = [] then Inl IndexError
         else (case last args of
                 None \<Rightarrow> Inr []
               | Some ids \<Rightarrow> Inr (if ids \<noteq> [] then ids else [])))
      else
        (case experiments self of
           None \<Rightarrow> Inl TypeError
         | Some es \<Rightarrow> Inr (map exp_id es)))"

text \<open>Line 163, the first argument of the plotting routine:
  \<^verbatim>\<open>self.data_df[self.data_df["experiment_id"].isin(selected_row_ids)]\<close>. Subscripting
  \<^verbatim>\<open>None\<close> is a \<^verbatim>\<open>TypeError\<close>.\<close>

definition plotted_table :: "widget \<Rightarrow> string list \<Rightarrow> exn + table" where
  "plotted_table self ids =
     (case data_df self of
        None \<Rightarrow> Inl TypeError
      | Some df \<Rightarrow>
          (case get_column df ''experiment_id'' of
             Inl e \<Rightarrow> Inl e
           | Inr series \<Rightarrow> Inr (select_mask df (map (\<lambda>v. isin v ids) series))))"

text \<open>Lines 170 and 171: \<^verbatim>\<open>for i in range(len(df_figure.data))\<close>, from index \<open>i\<close> on.
  Slicing a name that is \<^verbatim>\<open>None\<close> is a \<^verbatim>\<open>TypeError\<close>.\<close>

function truncate_names :: "nat \<Rightarrow> trace list \<Rightarrow> exn + trace list" where
  "truncate_names i traces =
     (if i < length traces then
        (case trace_name (traces ! i) of
           None \<Rightarrow> Inl TypeError
         | Some s \<Rightarrow>
             truncate_names (Suc i) (traces[i := (traces ! i)\<lparr>trace_name := Some (take 7 s)\<rparr>]))
      else Inr traces)"
  by pat_completeness auto
termination
  by (relation "measure (\<lambda>(i, traces). length traces - i)") auto

declare truncate_names.simps [simp del]

text \<open>Lines 173 to 177.\<close>

definition header_text :: "string \<Rightarrow> nat \<Rightarrow> string" where
  "header_text name k =
     ''showing dataframe '' @ [CHR 0x27] @ name @ [CHR 0x27] @ '' '' @
     ''over '' @ str_of_nat k @ '' experiment'' @
     (if k \<noteq> 1 then ''s'' else [])"

text \<open>
  The callback (lines 147 to 179), registered with \<^verbatim>\<open>link_experiment_table\<close>.
  \<^verbatim>\<open>plot_background_blue\<close> is a constant of \<^verbatim>\<open>rubicon_ml.viz.common.colors\<close> and a
  parameter here. The callback assigns to no attribute of \<^verbatim>\<open>self\<close>, so it returns its
  two outputs only.
\<close>

definition update_dataframe_plot ::
  "string \<Rightarrow> bool \<Rightarrow> widget \<Rightarrow> string list option list \<Rightarrow> exn + (figure \<times> string)" where
  "update_dataframe_plot plot_background_blue link_experiment_table self args =
     (case selected_row_ids link_experiment_table self args of
        Inl e \<Rightarrow> Inl e
      | Inr ids \<Rightarrow>
          (let df_figure_margin = 30
           in case plotted_table self ids of
                Inl e \<Rightarrow> Inl e
              | Inr tbl \<Rightarrow>
                  (case plotting_func self tbl (self_x self) (self_y self)
                          (plotting_func_kwargs self) of
                     Inl e \<Rightarrow> Inl e
                   | Inr df_figure \<Rightarrow>
                       (let df_figure1 = df_figure\<lparr>margin_t := Some df_figure_margin,
                                                    plot_bgcolor := Some plot_background_blue\<rparr>
                        in case truncate_names 0 (fig_data df_figure1) of
                             Inl e \<Rightarrow> Inl e
                           | Inr traces \<Rightarrow>
                               Inr (df_figure1\<lparr>fig_data := traces\<rparr>,
                                    header_text (dataframe_name self) (length ids))))))"

section \<open>Vocabulary of the properties\<close>

text \<open>The frame an experiment delivers for a name: \<^verbatim>\<open>experiment.dataframe(name=...)\<close>
  returns and so does \<^verbatim>\<open>get_data()\<close>.\<close>

definition fetched_table :: "string \<Rightarrow> experiment_t \<Rightarrow> table option" where
  "fetched_table name e =
     (case dataframe e name of
        Inl _ \<Rightarrow> None
      | Inr d \<Rightarrow> (case get_data d of Inl _ \<Rightarrow> None | Inr t \<Rightarrow> Some t))"

text \<open>The frame as the loop holds it in \<^verbatim>\<open>data_df\<close> after line 105.\<close>

definition tagged_table :: "string \<Rightarrow> experiment_t \<Rightarrow> table option" where
  "tagged_table name e =
     map_option (\<lambda>t. set_column t ''experiment_id'' (StrC (exp_id e))) (fetched_table name e)"

text \<open>The rows an experiment contributes: those of its frame, each with the
  experiment's identifier in column \<^verbatim>\<open>experiment_id\<close>; none without a frame.\<close>

definition contributed_rows :: "string \<Rightarrow> experiment_t \<Rightarrow> row list" where
  "contributed_rows name e =
     (case fetched_table name e of
        None \<Rightarrow> []
      | Some t \<Rightarrow> map (\<lambda>(l, r). r(''experiment_id'' \<mapsto> StrC (exp_id e))) (rows t))"

definition num_rows :: "string \<Rightarrow> experiment_t \<Rightarrow> nat" where
  "num_rows name e = (case fetched_table name e of None \<Rightarrow> 0 | Some t \<Rightarrow> length (rows t))"

text \<open>The rows of the combined table without their index labels; none while it is unset.\<close>

definition df_rows :: "table option \<Rightarrow> row list" where
  "df_rows d = (case d of None \<Rightarrow> [] | Some t \<Rightarrow> map snd (rows t))"

text \<open>The first experiment of the list whose fetch does not raise.\<close>

definition first_loaded :: "string \<Rightarrow> experiment_t list \<Rightarrow> experiment_t option" where
  "first_loaded name es = find (\<lambda>e. \<not> isl (dataframe e name)) es"

text \<open>Line 111 can read \<^verbatim>\<open>columns[1]\<close>: the first loaded frame, once tagged, has two
  columns.\<close>

definition y_inferable :: "string \<Rightarrow> experiment_t list \<Rightarrow> bool" where
  "y_inferable name es =
     (case first_loaded name es of
        None \<Rightarrow> True
      | Some e \<Rightarrow>
          (case tagged_table name e of
             None \<Rightarrow> True
           | Some t \<Rightarrow> 2 \<le> length (columns t)))"

subsection \<open>Sample objects\<close>

text \<open>An experiment with one frame logged under a name, and one with none.\<close>

definition logged :: "string \<Rightarrow> string \<Rightarrow> table \<Rightarrow> experiment_t" where
  "logged i name t =
     \<lparr>exp_id = i,
      dataframe = (\<lambda>n. if n = name then Inr (Dataframe (Inr t))
                       else Inl (RubiconException ''No dataframe found.''))\<rparr>"

definition unlogged :: "string \<Rightarrow> experiment_t" where
  "unlogged i = \<lparr>exp_id = i, dataframe = (\<lambda>n. Inl (RubiconException ''No dataframe found.''))\<rparr>"

text \<open>A frame with columns \<^verbatim>\<open>step\<close> and \<^verbatim>\<open>loss\<close> and two rows.\<close>

definition sample_frame :: "int \<Rightarrow> table" where
  "sample_frame v =
     \<lparr>columns = [''step'', ''loss''],
      rows = [(IntC 0, [''step'' \<mapsto> IntC 0, ''loss'' \<mapsto> IntC v]),
              (IntC 1, [''step'' \<mapsto> IntC 1, ''loss'' \<mapsto> IntC (v - 1)])]\<rparr>"

text \<open>A frame whose only column is already called \<^verbatim>\<open>experiment_id\<close>.\<close>

definition single_column_frame :: table where
  "single_column_frame =
     \<lparr>columns = [''experiment_id''],
      rows = [(IntC 0, [''experiment_id'' \<mapsto> StrC ''old'']),
              (IntC 1, [''experiment_id'' \<mapsto> StrC ''old''])]\<rparr>"

text \<open>A plotting routine: one trace per row, named by the row's \<^verbatim>\<open>experiment_id\<close>.\<close>

definition sample_plot ::
  "table \<Rightarrow> string option \<Rightarrow> string option \<Rightarrow> (string \<Rightarrow> kwarg option) \<Rightarrow> exn + figure" where
  "sample_plot t x_col y_col kw =
     Inr \<lparr>fig_data =
            map (\<lambda>(l, r). \<lparr>trace_name =
                   (case r ''experiment_id'' of Some (StrC s) \<Rightarrow> Some s | _ \<Rightarrow> Some [])\<rparr>)
              (rows t),
          margin_t = None, plot_bgcolor = None\<rparr>"

definition sample_colorscale :: "nat \<Rightarrow> string list" where
  "sample_colorscale n = replicate n ''rgb(0, 0, 255)''"

text \<open>A widget as the constructor leaves it, for the frame name \<^verbatim>\<open>loss\<close>.\<close>

definition sample_widget :: "experiment_t list \<Rightarrow> widget" where
  "sample_widget es =
     \<lparr>dataframe_name = ''loss'', experiments = Some es, plotting_func = sample_plot,
      plotting_func_kwargs = Map.empty, self_x = None, self_y = None, data_df = None,
      emitted_warnings = []\<rparr>"

text \<open>The widget of two experiments, one of them without the frame, after loading.\<close>

definition sample_loaded :: widget where
  "sample_loaded =
     snd (load_experiment_data sample_colorscale
            (sample_widget [logged ''run-0123456789'' ''loss'' (sample_frame 3),
                            unlogged ''run-b'']))"

text \<open>A frame with the two columns and no row.\<close>

definition empty_frame :: table where
  "empty_frame = \<lparr>columns = [''step'', ''loss''], rows = []\<rparr>"

text \<open>The widget of two experiments that both have the frame, after loading.\<close>

definition sample_loaded_two :: widget where
  "sample_loaded_two =
     snd (load_experiment_data sample_colorscale
            (sample_widget [logged ''alpha-0123456789'' ''loss'' (sample_frame 3),
                            logged ''beta-0123456789'' ''loss'' (sample_frame 7)]))"

section \<open>The constructor and the dictionary of keyword options\<close>

text \<open>
  Line 51 gives the parameter \<^verbatim>\<open>plotting_func_kwargs\<close> the default \<^verbatim>\<open>{}\<close>. Python
  evaluates a default once, when the \<^verbatim>\<open>def\<close> is executed: every call of the constructor
  that omits the argument binds the same dictionary object, and line 60 stores a reference
  to it in the widget. Lines 121 and 123 assign into the dictionary the widget refers to.
  So dictionaries are objects in a store, by address; address 0 is the default object of
  line 51, empty when the class has just been defined.
\<close>

type_synonym kwargs = "string \<Rightarrow> kwarg option"

type_synonym store = "nat \<Rightarrow> kwargs"

definition default_kwargs_addr :: nat where
  "default_kwargs_addr = 0"

definition fresh_store :: store where
  "fresh_store = (\<lambda>a. Map.empty)"

text \<open>A \<^verbatim>\<open>DataframePlot\<close> object: its attributes, and the address of the dictionary that
  \<^verbatim>\<open>self.plotting_func_kwargs\<close> refers to. The field \<open>plotting_func_kwargs\<close> of \<open>attrs\<close>
  is the content of that dictionary as the last method call of this object left it; the
  dictionary itself is in the store.\<close>

record plot_object =
  attrs :: widget
  kwargs_addr :: nat

text \<open>The constructor (lines 46 to 62). The fourth argument is the address of the
  dictionary the caller passes, or \<open>None\<close> when the caller passes none.\<close>

definition init ::
  "string \<Rightarrow> experiment_t list option \<Rightarrow>
   (table \<Rightarrow> string option \<Rightarrow> string option \<Rightarrow> kwargs \<Rightarrow> exn + figure) \<Rightarrow>
   nat option \<Rightarrow> string option \<Rightarrow> string option \<Rightarrow> plot_object" where
  "init name exps routine kwargs_arg x_arg y_arg =
     \<lparr>attrs = \<lparr>dataframe_name = name, experiments = exps, plotting_func = routine,
               plotting_func_kwargs = Map.empty, self_x = x_arg, self_y = y_arg,
               data_df = None, emitted_warnings = []\<rparr>,
      kwargs_addr = (case kwargs_arg of None \<Rightarrow> default_kwargs_addr | Some a \<Rightarrow> a)\<rparr>"

text \<open>The widget as a method sees it: the attributes, with the keyword options read
  through the reference.\<close>

definition deref :: "store \<Rightarrow> plot_object \<Rightarrow> widget" where
  "deref st obj = (attrs obj)\<lparr>plotting_func_kwargs := st (kwargs_addr obj)\<rparr>"

text \<open>\<^verbatim>\<open>load_experiment_data\<close> called on an object: the method runs on the widget with
  the dictionary it refers to, and what it assigned into the dictionary is in the store
  afterwards.\<close>

definition load_object ::
  "(nat \<Rightarrow> string list) \<Rightarrow> store \<Rightarrow> plot_object \<Rightarrow> exn option \<times> store \<times> plot_object" where
  "load_object colorscale st obj =
     (case load_experiment_data colorscale (deref st obj) of
        (r, w') \<Rightarrow> (r, st(kwargs_addr obj := plotting_func_kwargs w'), obj\<lparr>attrs := w'\<rparr>))"

text \<open>Two widgets built without keyword options, the first for two experiments, the
  second for three; the store after the first has been loaded; the second after it has
  been loaded next.\<close>

definition first_plot :: plot_object where
  "first_plot =
     init ''loss''
       (Some [logged ''a'' ''loss'' (sample_frame 3), logged ''b'' ''loss'' (sample_frame 7)])
       sample_plot None None None"

definition second_plot :: plot_object where
  "second_plot =
     init ''loss''
       (Some [logged ''c'' ''loss'' (sample_frame 3), logged ''d'' ''loss'' (sample_frame 5),
              logged ''e'' ''loss'' (sample_frame 7)])
       sample_plot None None None"

definition store_after_first :: store where
  "store_after_first = fst (snd (load_object sample_colorscale fresh_store first_plot))"

definition second_loaded :: "exn option \<times> store \<times> plot_object" where
  "second_loaded = load_object sample_colorscale store_after_first second_plot"

section \<open>Properties\<close>

subsection \<open>Frames\<close>

lemma rows_reset_index [simp]: "map snd (rows (reset_index t)) = map snd (rows t)"
  by (simp add: reset_index_def)

lemma length_rows_reset_index [simp]: "length (rows (reset_index t)) = length (rows t)"
  by (simp add: reset_index_def)

lemma columns_reset_index [simp]: "columns (reset_index t) = columns t"
  by (simp add: reset_index_def)

lemma rows_concat_tables [simp]: "rows (concat_tables a b) = rows a @ rows b"
  by (simp add: concat_tables_def)

lemma columns_concat_tables_same:
  "columns b = columns a \<Longrightarrow> columns (concat_tables a b) = columns a"
  by (simp add: concat_tables_def)

lemma columns_concat_tables_mem:
  "c \<in> set (columns a) \<Longrightarrow> c \<in> set (columns (concat_tables a b))"
  by (simp add: concat_tables_def)

lemma rows_set_column [simp]:
  "map snd (rows (set_column t c v)) = map (\<lambda>(l, r). r(c \<mapsto> v)) (rows t)"
  by (simp add: set_column_def case_prod_unfold)

lemma length_rows_set_column [simp]: "length (rows (set_column t c v)) = length (rows t)"
  by (simp add: set_column_def)

lemma set_column_mem [simp]: "c \<in> set (columns (set_column t c v))"
  by (simp add: set_column_def)

lemma set_column_nonempty [simp]: "columns (set_column t c v) \<noteq> []"
  by (auto simp: set_column_def)

subsection \<open>One pass of the loading loop\<close>

lemma self_x_same: "self_x u = v \<Longrightarrow> u\<lparr>self_x := v\<rparr> = u"
  by auto

lemma self_y_same: "self_y u = v \<Longrightarrow> u\<lparr>self_y := v\<rparr> = u"
  by auto

lemma load_one_fetch_fails:
  "dataframe e (dataframe_name w) = Inl ex \<Longrightarrow>
   load_one w e = (None, w\<lparr>emitted_warnings := emitted_warnings w @ [warning_text e]\<rparr>)"
  by (simp add: load_one_def)

lemma load_one_success:
  assumes "fetched_table (dataframe_name w) e = Some t"
    and "tt = set_column t ''experiment_id'' (StrC (exp_id e))"
    and "self_y w \<noteq> None \<or> 2 \<le> length (columns tt)"
  shows "load_one w e =
    (None, append_data
       (w\<lparr>self_x := (case self_x w of None \<Rightarrow> Some (columns tt ! 0) | Some a \<Rightarrow> Some a),
          self_y := (case self_y w of None \<Rightarrow> Some (columns tt ! 1) | Some b \<Rightarrow> Some b)\<rparr>) tt)"
proof -
  from assms(1) obtain d where d: "dataframe e (dataframe_name w) = Inr d" "get_data d = Inr t"
    by (auto simp: fetched_table_def split: sum.splits)
  have c0: "py_index (columns tt) 0 = Inr (columns tt ! 0)"
    using assms(2) by (simp add: py_index_def)
  show ?thesis
    using assms(3) d c0 assms(2)
    by (cases "self_x w"; cases "self_y w")
       (auto simp: load_one_def infer_x_def infer_y_def py_index_def Let_def
                   self_x_same self_y_same)
qed

lemma load_one_raises:
  assumes "load_one w e = (Some err, w')"
  shows "\<exists>d. dataframe e (dataframe_name w) = Inr d \<and> (get_data d = Inl err \<or> err = IndexError)"
  using assms
  by (auto simp: load_one_def infer_x_def infer_y_def py_index_def Let_def
           split: sum.splits if_splits)

lemma load_one_keeps:
  assumes "load_one w e = (r, w')"
  shows "dataframe_name w' = dataframe_name w \<and> experiments w' = experiments w \<and>
         plotting_func w' = plotting_func w \<and> plotting_func_kwargs w' = plotting_func_kwargs w"
  using assms
  by (auto simp: load_one_def infer_x_def infer_y_def append_data_def Let_def
           split: sum.splits if_splits)

lemma load_one_rows:
  assumes "load_one w e = (None, w')"
  shows "df_rows (data_df w') = df_rows (data_df w) @ contributed_rows (dataframe_name w) e"
  using assms
  by (auto simp: load_one_def infer_x_def infer_y_def append_data_def Let_def df_rows_def
                 contributed_rows_def fetched_table_def
           split: sum.splits if_splits option.splits)

lemma load_one_warnings:
  assumes "load_one w e = (None, w')"
  shows "emitted_warnings w' =
         emitted_warnings w @ (if isl (dataframe e (dataframe_name w)) then [warning_text e] else [])"
  using assms
  by (auto simp: load_one_def infer_x_def infer_y_def append_data_def Let_def
           split: sum.splits if_splits)

lemma load_one_x_fixed:
  assumes "load_one w e = (r, w')" and "self_x w = Some a"
  shows "self_x w' = Some a"
  using assms
  by (auto simp: load_one_def infer_x_def infer_y_def append_data_def Let_def
           split: sum.splits if_splits)

lemma load_one_y_fixed:
  assumes "load_one w e = (r, w')" and "self_y w = Some b"
  shows "self_y w' = Some b"
  using assms
  by (auto simp: load_one_def infer_x_def infer_y_def append_data_def Let_def
           split: sum.splits if_splits)

lemma load_one_has_id_column:
  assumes "load_one w e = (r, w')"
    and "\<forall>df. data_df w = Some df \<longrightarrow> ''experiment_id'' \<in> set (columns df)"
  shows "\<forall>df. data_df w' = Some df \<longrightarrow> ''experiment_id'' \<in> set (columns df)"
  using assms
  by (auto simp: load_one_def infer_x_def infer_y_def append_data_def Let_def
                 columns_concat_tables_mem
           split: sum.splits if_splits option.splits)

lemma load_one_unset:
  assumes "load_one w e = (None, w')"
  shows "data_df w' = None \<longleftrightarrow> data_df w = None \<and> isl (dataframe e (dataframe_name w))"
  using assms
  by (auto simp: load_one_def infer_x_def infer_y_def append_data_def Let_def
           split: sum.splits if_splits)

subsection \<open>The loading loop\<close>

lemma load_loop_all_fail:
  "\<forall>e\<in>set es. isl (dataframe e (dataframe_name w)) \<Longrightarrow>
   load_loop w es = (None, w\<lparr>emitted_warnings := emitted_warnings w @ map warning_text es\<rparr>)"
proof (induction es arbitrary: w)
  case Nil
  then show ?case by simp
next
  case (Cons e es)
  from Cons.prems obtain ex where ex: "dataframe e (dataframe_name w) = Inl ex"
    by (auto simp: isl_def)
  let ?w = "w\<lparr>emitted_warnings := emitted_warnings w @ [warning_text e]\<rparr>"
  have "load_loop ?w es = (None, ?w\<lparr>emitted_warnings := emitted_warnings ?w @ map warning_text es\<rparr>)"
    using Cons.prems by (intro Cons.IH) simp
  then show ?case by (simp add: load_one_fetch_fails [OF ex])
qed

lemma load_loop_keeps:
  "load_loop w es = (r, w') \<Longrightarrow>
   dataframe_name w' = dataframe_name w \<and> experiments w' = experiments w \<and>
   plotting_func w' = plotting_func w \<and> plotting_func_kwargs w' = plotting_func_kwargs w"
proof (induction es arbitrary: w)
  case Nil
  then show ?case by simp
next
  case (Cons e es)
  obtain r1 w1 where one: "load_one w e = (r1, w1)" by (cases "load_one w e")
  note k = load_one_keeps [OF one]
  show ?case
  proof (cases r1)
    case None
    with Cons.prems one have "load_loop w1 es = (r, w')" by simp
    from Cons.IH [OF this] k show ?thesis by simp
  next
    case (Some err)
    with Cons.prems one have "w' = w1" by simp
    with k show ?thesis by simp
  qed
qed

lemma load_loop_rows:
  "load_loop w es = (None, w') \<Longrightarrow>
   df_rows (data_df w') =
   df_rows (data_df w) @ concat (map (contributed_rows (dataframe_name w)) es)"
proof (induction es arbitrary: w)
  case Nil
  then show ?case by simp
next
  case (Cons e es)
  obtain r1 w1 where one: "load_one w e = (r1, w1)" by (cases "load_one w e")
  with Cons.prems have r1: "r1 = None" and rest: "load_loop w1 es = (None, w')"
    by (auto split: option.splits)
  from one r1 have one': "load_one w e = (None, w1)" by simp
  have name: "dataframe_name w1 = dataframe_name w" using load_one_keeps [OF one] by simp
  show ?case
    using Cons.IH [OF rest] load_one_rows [OF one'] name by simp
qed

lemma load_loop_warnings:
  "load_loop w es = (None, w') \<Longrightarrow>
   emitted_warnings w' =
   emitted_warnings w @
     map warning_text (filter (\<lambda>e. isl (dataframe e (dataframe_name w))) es)"
proof (induction es arbitrary: w)
  case Nil
  then show ?case by simp
next
  case (Cons e es)
  obtain r1 w1 where one: "load_one w e = (r1, w1)" by (cases "load_one w e")
  with Cons.prems have r1: "r1 = None" and rest: "load_loop w1 es = (None, w')"
    by (auto split: option.splits)
  from one r1 have one': "load_one w e = (None, w1)" by simp
  have name: "dataframe_name w1 = dataframe_name w" using load_one_keeps [OF one] by simp
  show ?case
    using Cons.IH [OF rest] load_one_warnings [OF one'] name by simp
qed

lemma load_loop_raises:
  "load_loop w es = (Some err, w') \<Longrightarrow>
   \<exists>e\<in>set es. \<exists>d. dataframe e (dataframe_name w) = Inr d \<and>
      (get_data d = Inl err \<or> err = IndexError)"
proof (induction es arbitrary: w)
  case Nil
  then show ?case by simp
next
  case (Cons e es)
  obtain r1 w1 where one: "load_one w e = (r1, w1)" by (cases "load_one w e")
  have name: "dataframe_name w1 = dataframe_name w" using load_one_keeps [OF one] by simp
  show ?case
  proof (cases r1)
    case None
    with Cons.prems one have "load_loop w1 es = (Some err, w')" by simp
    from Cons.IH [OF this] name show ?thesis by auto
  next
    case (Some err1)
    with Cons.prems one have "err1 = err" by simp
    with one Some have "load_one w e = (Some err, w1)" by simp
    from load_one_raises [OF this] show ?thesis by auto
  qed
qed

lemma load_loop_x_fixed:
  "load_loop w es = (r, w') \<Longrightarrow> self_x w = Some a \<Longrightarrow> self_x w' = Some a"
proof (induction es arbitrary: w)
  case Nil
  then show ?case by simp
next
  case (Cons e es)
  obtain r1 w1 where one: "load_one w e = (r1, w1)" by (cases "load_one w e")
  have x1: "self_x w1 = Some a" using load_one_x_fixed [OF one Cons.prems(2)] .
  show ?case
  proof (cases r1)
    case None
    with Cons.prems one have "load_loop w1 es = (r, w')" by simp
    from Cons.IH [OF this x1] show ?thesis .
  next
    case (Some err)
    with Cons.prems one have "w' = w1" by simp
    with x1 show ?thesis by simp
  qed
qed

lemma load_loop_y_fixed:
  "load_loop w es = (r, w') \<Longrightarrow> self_y w = Some b \<Longrightarrow> self_y w' = Some b"
proof (induction es arbitrary: w)
  case Nil
  then show ?case by simp
next
  case (Cons e es)
  obtain r1 w1 where one: "load_one w e = (r1, w1)" by (cases "load_one w e")
  have y1: "self_y w1 = Some b" using load_one_y_fixed [OF one Cons.prems(2)] .
  show ?case
  proof (cases r1)
    case None
    with Cons.prems one have "load_loop w1 es = (r, w')" by simp
    from Cons.IH [OF this y1] show ?thesis .
  next
    case (Some err)
    with Cons.prems one have "w' = w1" by simp
    with y1 show ?thesis by simp
  qed
qed

lemma load_loop_has_id_column:
  "load_loop w es = (r, w') \<Longrightarrow>
   \<forall>df. data_df w = Some df \<longrightarrow> ''experiment_id'' \<in> set (columns df) \<Longrightarrow>
   \<forall>df. data_df w' = Some df \<longrightarrow> ''experiment_id'' \<in> set (columns df)"
proof (induction es arbitrary: w)
  case Nil
  then show ?case by simp
next
  case (Cons e es)
  obtain r1 w1 where one: "load_one w e = (r1, w1)" by (cases "load_one w e")
  note inv = load_one_has_id_column [OF one Cons.prems(2)]
  show ?case
  proof (cases r1)
    case None
    with Cons.prems one have "load_loop w1 es = (r, w')" by simp
    from Cons.IH [OF this inv] show ?thesis .
  next
    case (Some err)
    with Cons.prems one have "w' = w1" by simp
    with inv show ?thesis by simp
  qed
qed

lemma load_loop_unset:
  "load_loop w es = (None, w') \<Longrightarrow>
   data_df w' = None \<longleftrightarrow>
   data_df w = None \<and> (\<forall>e\<in>set es. isl (dataframe e (dataframe_name w)))"
proof (induction es arbitrary: w)
  case Nil
  then show ?case by simp
next
  case (Cons e es)
  obtain r1 w1 where one: "load_one w e = (r1, w1)" by (cases "load_one w e")
  with Cons.prems have r1: "r1 = None" and rest: "load_loop w1 es = (None, w')"
    by (auto split: option.splits)
  from one r1 have one': "load_one w e = (None, w1)" by simp
  have name: "dataframe_name w1 = dataframe_name w" using load_one_keeps [OF one] by simp
  show ?case
    using Cons.IH [OF rest] load_one_unset [OF one'] name by auto
qed

subsection \<open>Leaving the method\<close>

lemma first_loaded_Cons:
  "first_loaded name (e # es) =
     (if isl (dataframe e name) then first_loaded name es else Some e)"
  by (simp add: first_loaded_def)

lemma load_loop_completes:
  "\<forall>e\<in>set es. isl (dataframe e (dataframe_name w)) \<or> fetched_table (dataframe_name w) e \<noteq> None \<Longrightarrow>
   self_y w \<noteq> None \<or> y_inferable (dataframe_name w) es \<Longrightarrow>
   fst (load_loop w es) = None"
proof (induction es arbitrary: w)
  case Nil
  then show ?case by simp
next
  case (Cons e es)
  show ?case
  proof (cases "dataframe e (dataframe_name w)")
    case (Inl ex)
    let ?w1 = "w\<lparr>emitted_warnings := emitted_warnings w @ [warning_text e]\<rparr>"
    have one: "load_one w e = (None, ?w1)" by (rule load_one_fetch_fails [OF Inl])
    have a: "\<forall>e\<in>set es. isl (dataframe e (dataframe_name ?w1)) \<or>
               fetched_table (dataframe_name ?w1) e \<noteq> None"
      using Cons.prems(1) by simp
    have b: "self_y ?w1 \<noteq> None \<or> y_inferable (dataframe_name ?w1) es"
      using Cons.prems(2) Inl by (simp add: y_inferable_def first_loaded_Cons)
    from Cons.IH [OF a b] one show ?thesis by simp
  next
    case (Inr d)
    with Cons.prems(1) obtain t where t: "fetched_table (dataframe_name w) e = Some t"
      by auto
    define tt where "tt = set_column t ''experiment_id'' (StrC (exp_id e))"
    have c: "self_y w \<noteq> None \<or> 2 \<le> length (columns tt)"
      using Cons.prems(2) Inr t
      by (auto simp: y_inferable_def first_loaded_Cons tagged_table_def tt_def)
    obtain w1 where one: "load_one w e = (None, w1)" and y1: "self_y w1 \<noteq> None"
      using load_one_success [OF t tt_def c]
      by (auto simp: append_data_def split: option.splits)
    have name: "dataframe_name w1 = dataframe_name w" using load_one_keeps [OF one] by simp
    have a: "\<forall>e\<in>set es. isl (dataframe e (dataframe_name w1)) \<or>
               fetched_table (dataframe_name w1) e \<noteq> None"
      using Cons.prems(1) name by simp
    from Cons.IH [OF a] y1 one show ?thesis by simp
  qed
qed

lemma check_found_ok:
  "data_df w = Some df \<Longrightarrow> columns df \<noteq> [] \<Longrightarrow> rows df \<noteq> [] \<Longrightarrow> check_found w = None"
  by (simp add: check_found_def try_empty_def empty_df_def)

lemma check_found_None:
  "check_found w = None \<Longrightarrow> \<exists>df. data_df w = Some df \<and> columns df \<noteq> [] \<and> rows df \<noteq> []"
  by (auto simp: check_found_def try_empty_def empty_df_def split: option.splits if_splits)

lemma load_experiment_data_returns:
  assumes "load_experiment_data colorscale w = (None, w')"
  shows "\<exists>es w1. experiments w = Some es \<and> load_loop (w\<lparr>data_df := None\<rparr>) es = (None, w1) \<and>
           w' = w1\<lparr>plotting_func_kwargs :=
                   default_kwargs colorscale (length es) (plotting_func_kwargs w1)\<rparr> \<and>
           check_found w' = None"
  using assms
  by (auto simp: load_experiment_data_def Let_def split: option.splits prod.splits)

lemma load_experiment_data_completes:
  assumes "experiments w = Some es"
    and "load_loop (w\<lparr>data_df := None\<rparr>) es = (None, w1)"
    and "concat (map (contributed_rows (dataframe_name w)) es) \<noteq> []"
  shows "load_experiment_data colorscale w =
           (None, w1\<lparr>plotting_func_kwargs :=
                   default_kwargs colorscale (length es) (plotting_func_kwargs w1)\<rparr>)"
proof -
  let ?w0 = "w\<lparr>data_df := None\<rparr>"
  have r: "df_rows (data_df w1) = concat (map (contributed_rows (dataframe_name w)) es)"
    using load_loop_rows [OF assms(2)] by (simp add: df_rows_def)
  with assms(3) have "df_rows (data_df w1) \<noteq> []" by simp
  then obtain df where df: "data_df w1 = Some df" "rows df \<noteq> []"
    by (cases "data_df w1") (auto simp: df_rows_def)
  have "''experiment_id'' \<in> set (columns df)"
    using load_loop_has_id_column [OF assms(2)] df(1) by simp
  then have "columns df \<noteq> []" by auto
  with df have "check_found (w1\<lparr>plotting_func_kwargs :=
                   default_kwargs colorscale (length es) (plotting_func_kwargs w1)\<rparr>) = None"
    by (intro check_found_ok [where df = df]) simp_all
  then show ?thesis
    using assms(1,2) by (simp add: load_experiment_data_def Let_def)
qed

subsection \<open>What the loop collects\<close>

lemma length_contributed_rows [simp]:
  "length (contributed_rows name e) = num_rows name e"
  by (simp add: contributed_rows_def num_rows_def split: option.splits)

lemma id_of_contributed_rows:
  "map (\<lambda>r. r ''experiment_id'') (contributed_rows name e) =
   replicate (num_rows name e) (Some (StrC (exp_id e)))"
proof (cases "fetched_table name e")
  case None
  then show ?thesis by (simp add: contributed_rows_def num_rows_def)
next
  case (Some t)
  have "map (\<lambda>r. r ''experiment_id'')
          (map (\<lambda>(l, r). r(''experiment_id'' \<mapsto> StrC (exp_id e))) (rows t)) =
        map (\<lambda>p. Some (StrC (exp_id e))) (rows t)"
    by (simp add: case_prod_unfold)
  also have "\<dots> = replicate (length (rows t)) (Some (StrC (exp_id e)))"
    by (rule map_replicate_const)
  finally show ?thesis using Some by (simp add: contributed_rows_def num_rows_def)
qed

lemma contributed_rows_unfetched:
  "isl (dataframe e name) \<Longrightarrow> contributed_rows name e = []"
  by (auto simp: contributed_rows_def fetched_table_def isl_def)

lemma fetched_not_isl:
  "fetched_table name e = Some t \<Longrightarrow> \<not> isl (dataframe e name)"
  by (auto simp: fetched_table_def split: sum.splits)

lemma columns_set_column:
  "columns (set_column t c v) = (if c \<in> set (columns t) then columns t else columns t @ [c])"
  by (simp add: set_column_def)

lemma load_one_data:
  assumes "load_one w e = (None, w')"
    and "fetched_table (dataframe_name w) e = Some t"
  shows "data_df w' =
         Some (reset_index
           (case data_df w of
              None \<Rightarrow> set_column t ''experiment_id'' (StrC (exp_id e))
            | Some acc \<Rightarrow> concat_tables acc (set_column t ''experiment_id'' (StrC (exp_id e)))))"
proof -
  from assms(2) obtain d where d: "dataframe e (dataframe_name w) = Inr d" "get_data d = Inr t"
    by (auto simp: fetched_table_def split: sum.splits)
  show ?thesis
    using assms(1) d
    by (auto simp: load_one_def infer_x_def infer_y_def append_data_def Let_def
             split: sum.splits if_splits)
qed

lemma load_one_columns:
  assumes "load_one w e = (None, w')"
    and "isl (dataframe e (dataframe_name w)) \<or>
         (\<exists>t. fetched_table (dataframe_name w) e = Some t \<and>
              columns (set_column t ''experiment_id'' (StrC (exp_id e))) = tcs)"
    and "\<forall>df. data_df w = Some df \<longrightarrow> columns df = tcs"
  shows "\<forall>df. data_df w' = Some df \<longrightarrow> columns df = tcs"
proof (cases "dataframe e (dataframe_name w)")
  case (Inl ex)
  from load_one_fetch_fails [OF Inl] assms(1,3) show ?thesis by simp
next
  case (Inr d)
  with assms(2) obtain t where t: "fetched_table (dataframe_name w) e = Some t"
    and c: "columns (set_column t ''experiment_id'' (StrC (exp_id e))) = tcs"
    by auto
  show ?thesis
  proof (cases "data_df w")
    case None
    with load_one_data [OF assms(1) t] c show ?thesis by simp
  next
    case (Some acc)
    with assms(3) have "columns acc = tcs" by simp
    with load_one_data [OF assms(1) t] c Some show ?thesis
      by (simp add: columns_concat_tables_same)
  qed
qed

lemma load_loop_columns:
  "load_loop w es = (None, w') \<Longrightarrow>
   \<forall>e\<in>set es. isl (dataframe e (dataframe_name w)) \<or>
         (\<exists>t. fetched_table (dataframe_name w) e = Some t \<and>
              columns (set_column t ''experiment_id'' (StrC (exp_id e))) = tcs) \<Longrightarrow>
   \<forall>df. data_df w = Some df \<longrightarrow> columns df = tcs \<Longrightarrow>
   \<forall>df. data_df w' = Some df \<longrightarrow> columns df = tcs"
proof (induction es arbitrary: w)
  case Nil
  then show ?case by simp
next
  case (Cons e es)
  obtain r1 w1 where one: "load_one w e = (r1, w1)" by (cases "load_one w e")
  with Cons.prems(1) have r1: "r1 = None" and rest: "load_loop w1 es = (None, w')"
    by (auto split: option.splits)
  from one r1 have one': "load_one w e = (None, w1)" by simp
  have name: "dataframe_name w1 = dataframe_name w" using load_one_keeps [OF one] by simp
  have c1: "\<forall>df. data_df w1 = Some df \<longrightarrow> columns df = tcs"
    using Cons.prems(2) by (intro load_one_columns [OF one' _ Cons.prems(3)]) simp
  show ?case
    using Cons.prems(2) name by (intro Cons.IH [OF rest _ c1]) simp
qed

subsection \<open>The sample objects and further facts of the loop\<close>

lemma fetched_logged [simp]: "fetched_table name (logged i name t) = Some t"
  by (simp add: fetched_table_def logged_def)

lemma dataframe_logged [simp]: "isl (dataframe (logged i name t) name) = False"
  by (simp add: logged_def)

lemma exp_id_logged [simp]: "exp_id (logged i name t) = i"
  by (simp add: logged_def)

lemma dataframe_unlogged [simp]: "isl (dataframe (unlogged i) name) = True"
  by (simp add: unlogged_def)

lemma fetched_unlogged [simp]: "fetched_table name (unlogged i) = None"
  by (simp add: fetched_table_def unlogged_def)

lemma exp_id_unlogged [simp]: "exp_id (unlogged i) = i"
  by (simp add: unlogged_def)

lemma sample_widget_fields [simp]:
  "dataframe_name (sample_widget es) = ''loss''"
  "experiments (sample_widget es) = Some es"
  "plotting_func (sample_widget es) = sample_plot"
  "plotting_func_kwargs (sample_widget es) = Map.empty"
  "self_x (sample_widget es) = None"
  "self_y (sample_widget es) = None"
  "data_df (sample_widget es) = None"
  "emitted_warnings (sample_widget es) = []"
  by (simp_all add: sample_widget_def)

lemma sample_frame_fields [simp]:
  "columns (sample_frame v) = [''step'', ''loss'']"
  "length (rows (sample_frame v)) = 2"
  "rows (sample_frame v) \<noteq> []"
  by (simp_all add: sample_frame_def)

lemma replicate_two: "replicate 2 v = [v, v]"
  by (simp add: numeral_2_eq_2)

lemma first_loaded_Nil [simp]: "first_loaded name [] = None"
  by (simp add: first_loaded_def)

lemma load_experiment_data_ok:
  assumes "experiments w = Some es"
    and "\<forall>e\<in>set es. isl (dataframe e (dataframe_name w)) \<or>
                   fetched_table (dataframe_name w) e \<noteq> None"
    and "self_y w \<noteq> None \<or> y_inferable (dataframe_name w) es"
    and "concat (map (contributed_rows (dataframe_name w)) es) \<noteq> []"
  shows "\<exists>w1. load_loop (w\<lparr>data_df := None\<rparr>) es = (None, w1) \<and>
           load_experiment_data colorscale w =
             (None, w1\<lparr>plotting_func_kwargs :=
                     default_kwargs colorscale (length es) (plotting_func_kwargs w1)\<rparr>)"
proof -
  let ?w0 = "w\<lparr>data_df := None\<rparr>"
  have "fst (load_loop ?w0 es) = None"
    using assms(2,3) by (intro load_loop_completes) simp_all
  then obtain w1 where loop: "load_loop ?w0 es = (None, w1)"
    by (cases "load_loop ?w0 es") simp
  from load_experiment_data_completes [OF assms(1) loop assms(4)] loop
  show ?thesis by blast
qed

lemma first_loaded_skip:
  "isl (dataframe m name) \<Longrightarrow>
   first_loaded name (pre @ m # post) = first_loaded name (pre @ post)"
  by (induction pre) (simp_all add: first_loaded_Cons)

lemma y_inferable_skip:
  "isl (dataframe m name) \<Longrightarrow>
   y_inferable name (pre @ m # post) = y_inferable name (pre @ post)"
  by (simp add: y_inferable_def first_loaded_skip)

lemma filter_unfetched_none:
  "\<forall>e\<in>set es. fetched_table name e \<noteq> None \<Longrightarrow>
   filter (\<lambda>e. isl (dataframe e name)) es = []"
  by (induction es) (auto simp: fetched_table_def isl_def)

lemma load_loop_infers:
  "self_x w = None \<Longrightarrow> self_y w = None \<Longrightarrow>
   first_loaded (dataframe_name w) es = Some e \<Longrightarrow>
   fetched_table (dataframe_name w) e = Some t \<Longrightarrow>
   columns (set_column t ''experiment_id'' (StrC (exp_id e))) = c0 # c1 # cs \<Longrightarrow>
   self_x (snd (load_loop w es)) = Some c0 \<and> self_y (snd (load_loop w es)) = Some c1"
proof (induction es arbitrary: w)
  case Nil
  then show ?case by simp
next
  case (Cons e' es)
  show ?case
  proof (cases "dataframe e' (dataframe_name w)")
    case (Inl ex)
    let ?w1 = "w\<lparr>emitted_warnings := emitted_warnings w @ [warning_text e']\<rparr>"
    have one: "load_one w e' = (None, ?w1)" by (rule load_one_fetch_fails [OF Inl])
    have fl: "first_loaded (dataframe_name ?w1) es = Some e"
      using Cons.prems(3) Inl by (simp add: first_loaded_Cons)
    have "self_x (snd (load_loop ?w1 es)) = Some c0 \<and> self_y (snd (load_loop ?w1 es)) = Some c1"
      using Cons.prems(1,2,4,5) by (intro Cons.IH [OF _ _ fl]) simp_all
    with one show ?thesis by simp
  next
    case (Inr d)
    with Cons.prems(3) have e': "e' = e" by (simp add: first_loaded_Cons)
    define tt where "tt = set_column t ''experiment_id'' (StrC (exp_id e))"
    have len: "self_y w \<noteq> None \<or> 2 \<le> length (columns tt)"
      using Cons.prems(5) by (simp add: tt_def)
    from load_one_success [OF Cons.prems(4) tt_def len] Cons.prems(1,2,5)
    obtain w1 where one: "load_one w e = (None, w1)"
      and x1: "self_x w1 = Some c0" and y1: "self_y w1 = Some c1"
      by (auto simp: append_data_def tt_def)
    obtain r w2 where rest: "load_loop w1 es = (r, w2)" by (cases "load_loop w1 es")
    from load_loop_x_fixed [OF rest x1] load_loop_y_fixed [OF rest y1] one rest e'
    show ?thesis by simp
  qed
qed

lemma load_experiment_data_axes:
  "experiments w = Some es \<Longrightarrow>
   self_x (snd (load_experiment_data colorscale w)) =
     self_x (snd (load_loop (w\<lparr>data_df := None\<rparr>) es)) \<and>
   self_y (snd (load_experiment_data colorscale w)) =
     self_y (snd (load_loop (w\<lparr>data_df := None\<rparr>) es))"
  by (simp add: load_experiment_data_def Let_def split: prod.splits option.splits)

lemma default_kwargs_apply:
  "default_kwargs colorscale n kw k =
     (if k = ''color'' then
        (case kw ''color'' of None \<Rightarrow> Some (StrArg ''experiment_id'') | Some v \<Rightarrow> Some v)
      else if k = ''color_discrete_sequence'' then
        (case kw ''color_discrete_sequence'' of
           None \<Rightarrow> Some (SeqArg (colorscale n)) | Some v \<Rightarrow> Some v)
      else kw k)"
  by (auto simp: default_kwargs_def Let_def dom_def split: option.splits)

lemma load_loop_Cons_raise:
  "fst (load_one w e) = Some err \<Longrightarrow> fst (load_loop w (e # es)) = Some err"
  by (cases "load_one w e") auto

lemma load_loop_Cons_pass:
  "load_one w e = (None, w1) \<Longrightarrow> load_loop w (e # es) = load_loop w1 es"
  by simp

lemma single_column_frame_fields [simp]:
  "columns single_column_frame = [''experiment_id'']"
  by (simp add: single_column_frame_def)

subsection \<open>The callback\<close>

lemma truncate_names_result:
  "truncate_names i ts = Inr ts' \<Longrightarrow>
   length ts' = length ts \<and>
   (\<forall>j<length ts.
      (j < i \<longrightarrow> ts' ! j = ts ! j) \<and>
      (i \<le> j \<longrightarrow> (\<exists>s. trace_name (ts ! j) = Some s \<and>
                         ts' ! j = (ts ! j)\<lparr>trace_name := Some (take 7 s)\<rparr>)))"
proof (induction i ts arbitrary: ts' rule: truncate_names.induct)
  case (1 i ts)
  show ?case
  proof (cases "i < length ts")
    case False
    with "1.prems" have "ts' = ts" by (simp add: truncate_names.simps [of i ts])
    with False show ?thesis by simp
  next
    case True
    with "1.prems" obtain s where s: "trace_name (ts ! i) = Some s"
      and rec: "truncate_names (Suc i) (ts[i := (ts ! i)\<lparr>trace_name := Some (take 7 s)\<rparr>]) = Inr ts'"
      by (auto simp: truncate_names.simps [of i ts] split: option.splits)
    let ?ts1 = "ts[i := (ts ! i)\<lparr>trace_name := Some (take 7 s)\<rparr>]"
    from "1.IH" [OF True s rec]
    have len: "length ts' = length ?ts1"
      and step: "\<forall>j<length ?ts1.
        (j < Suc i \<longrightarrow> ts' ! j = ?ts1 ! j) \<and>
        (Suc i \<le> j \<longrightarrow> (\<exists>s'. trace_name (?ts1 ! j) = Some s' \<and>
                         ts' ! j = (?ts1 ! j)\<lparr>trace_name := Some (take 7 s')\<rparr>))"
      by simp_all
    have "\<forall>j<length ts.
      (j < i \<longrightarrow> ts' ! j = ts ! j) \<and>
      (i \<le> j \<longrightarrow> (\<exists>s. trace_name (ts ! j) = Some s \<and>
                         ts' ! j = (ts ! j)\<lparr>trace_name := Some (take 7 s)\<rparr>))"
    proof (intro allI impI)
      fix j assume j: "j < length ts"
      with step have sj: "(j < Suc i \<longrightarrow> ts' ! j = ?ts1 ! j) \<and>
        (Suc i \<le> j \<longrightarrow> (\<exists>s'. trace_name (?ts1 ! j) = Some s' \<and>
                         ts' ! j = (?ts1 ! j)\<lparr>trace_name := Some (take 7 s')\<rparr>))"
        by simp
      show "(j < i \<longrightarrow> ts' ! j = ts ! j) \<and>
        (i \<le> j \<longrightarrow> (\<exists>s. trace_name (ts ! j) = Some s \<and>
                         ts' ! j = (ts ! j)\<lparr>trace_name := Some (take 7 s)\<rparr>))"
      proof (cases "j < i")
        case True
        with sj show ?thesis by simp
      next
        case False
        show ?thesis
        proof (cases "j = i")
          case True
          with sj j s show ?thesis by simp
        next
          case neq: False
          with False have "Suc i \<le> j" by simp
          with sj neq False show ?thesis by simp
        qed
      qed
    qed
    with len show ?thesis by simp
  qed
qed

lemma truncate_names_short:
  assumes "truncate_names 0 ts = Inr ts'"
  shows "\<forall>t\<in>set ts'. \<exists>s. trace_name t = Some s \<and> length s \<le> 7"
proof
  fix t assume "t \<in> set ts'"
  then obtain j where j: "j < length ts'" "t = ts' ! j" by (auto simp: in_set_conv_nth)
  from truncate_names_result [OF assms] j
  obtain s where "ts' ! j = (ts ! j)\<lparr>trace_name := Some (take 7 s)\<rparr>" by auto
  with j show "\<exists>s. trace_name t = Some s \<and> length s \<le> 7" by simp
qed

lemma truncate_names_map:
  assumes "truncate_names 0 ts = Inr ts'"
  shows "map trace_name ts' = map (\<lambda>t. map_option (take 7) (trace_name t)) ts"
proof (rule nth_equalityI)
  show "length (map trace_name ts') = length (map (\<lambda>t. map_option (take 7) (trace_name t)) ts)"
    using truncate_names_result [OF assms] by simp
next
  fix j assume "j < length (map trace_name ts')"
  then have j: "j < length ts" using truncate_names_result [OF assms] by simp
  with truncate_names_result [OF assms]
  obtain s where "trace_name (ts ! j) = Some s"
    "ts' ! j = (ts ! j)\<lparr>trace_name := Some (take 7 s)\<rparr>" by auto
  with j truncate_names_result [OF assms]
  show "map trace_name ts' ! j = map (\<lambda>t. map_option (take 7) (trace_name t)) ts ! j"
    by simp
qed

lemma update_dataframe_plot_Inr:
  assumes "update_dataframe_plot bg link w args = Inr out"
  shows "\<exists>ids tbl fig0 traces.
           selected_row_ids link w args = Inr ids \<and>
           plotted_table w ids = Inr tbl \<and>
           plotting_func w tbl (self_x w) (self_y w) (plotting_func_kwargs w) = Inr fig0 \<and>
           truncate_names 0 (fig_data fig0) = Inr traces \<and>
           out = (fig0\<lparr>margin_t := Some 30, plot_bgcolor := Some bg, fig_data := traces\<rparr>,
                  header_text (dataframe_name w) (length ids))"
  using assms
  by (auto simp: update_dataframe_plot_def Let_def split: sum.splits)

lemma filter_by_mask: "map snd (filter fst (zip (map f xs) xs)) = filter f xs"
  by (induction xs) auto

lemma isin_iff: "isin v ids \<longleftrightarrow> (\<exists>i\<in>set ids. v = Some (StrC i))"
  by (auto simp: isin_def split: option.splits cell.splits)

lemma plotted_table_Inr:
  assumes "plotted_table w ids = Inr tbl"
  shows "\<exists>df. data_df w = Some df \<and> columns tbl = columns df \<and>
           rows tbl = filter (\<lambda>(l, r). \<exists>i\<in>set ids. r ''experiment_id'' = Some (StrC i)) (rows df)"
proof -
  from assms obtain df where df: "data_df w = Some df"
    and c: "''experiment_id'' \<in> set (columns df)"
    and tbl: "tbl = select_mask df
                (map (\<lambda>v. isin v ids) (map (\<lambda>(l, r). r ''experiment_id'') (rows df)))"
    by (auto simp: plotted_table_def get_column_def split: option.splits if_splits)
  from tbl have "rows tbl =
      filter ((\<lambda>v. isin v ids) \<circ> (\<lambda>(l, r). r ''experiment_id'')) (rows df)"
    by (simp add: select_mask_def filter_by_mask)
  also have "\<dots> =
      filter (\<lambda>(l, r). \<exists>i\<in>set ids. r ''experiment_id'' = Some (StrC i)) (rows df)"
    by (rule filter_cong) (auto simp: isin_iff)
  finally have "rows tbl =
      filter (\<lambda>(l, r). \<exists>i\<in>set ids. r ''experiment_id'' = Some (StrC i)) (rows df)" .
  moreover from tbl have "columns tbl = columns df" by (simp add: select_mask_def)
  ultimately show ?thesis using df by simp
qed

lemma str_of_nat_1: "str_of_nat (Suc 0) = ''1''"
  by (simp add: str_of_nat.simps)

lemma str_of_nat_examples:
  "str_of_nat 0 = ''0''" "str_of_nat 7 = ''7''" "str_of_nat 12 = ''12''"
  "str_of_nat 305 = ''305''"
  by (simp_all add: str_of_nat.simps)

lemma load_experiment_data_keeps:
  "dataframe_name (snd (load_experiment_data colorscale w)) = dataframe_name w \<and>
   experiments (snd (load_experiment_data colorscale w)) = experiments w \<and>
   plotting_func (snd (load_experiment_data colorscale w)) = plotting_func w"
proof (cases "experiments w")
  case None
  then show ?thesis by (simp add: load_experiment_data_def)
next
  case (Some es)
  obtain r w1 where loop: "load_loop (w\<lparr>data_df := None\<rparr>) es = (r, w1)"
    by (cases "load_loop (w\<lparr>data_df := None\<rparr>) es")
  from load_loop_keeps [OF loop] Some loop show ?thesis
    by (cases r) (simp_all add: load_experiment_data_def Let_def)
qed

lemma sample_loaded_fields [simp]:
  "dataframe_name sample_loaded = ''loss''"
  "experiments sample_loaded =
     Some [logged ''run-0123456789'' ''loss'' (sample_frame 3), unlogged ''run-b'']"
  "plotting_func sample_loaded = sample_plot"
  using load_experiment_data_keeps
     [of sample_colorscale
         "sample_widget [logged ''run-0123456789'' ''loss'' (sample_frame 3), unlogged ''run-b'']"]
  by (simp_all add: sample_loaded_def)

lemma keyword_defaults_of_one_call:
  assumes "experiments w = Some es"
    and "load_experiment_data colorscale w = (None, w')"
  shows "plotting_func_kwargs w' ''color'' =
           (case plotting_func_kwargs w ''color'' of
              None \<Rightarrow> Some (StrArg ''experiment_id'') | Some v \<Rightarrow> Some v) \<and>
         plotting_func_kwargs w' ''color_discrete_sequence'' =
           (case plotting_func_kwargs w ''color_discrete_sequence'' of
              None \<Rightarrow> Some (SeqArg (colorscale (length es))) | Some v \<Rightarrow> Some v) \<and>
         (\<forall>k v. plotting_func_kwargs w k = Some v \<longrightarrow> plotting_func_kwargs w' k = Some v) \<and>
         (\<forall>k. k \<noteq> ''color'' \<and> k \<noteq> ''color_discrete_sequence'' \<longrightarrow>
              plotting_func_kwargs w' k = plotting_func_kwargs w k)"
proof -
  from load_experiment_data_returns [OF assms(2)] assms(1)
  obtain w1 where loop: "load_loop (w\<lparr>data_df := None\<rparr>) es = (None, w1)"
    and w': "w' = w1\<lparr>plotting_func_kwargs :=
                   default_kwargs colorscale (length es) (plotting_func_kwargs w1)\<rparr>"
    by auto
  have kw1: "plotting_func_kwargs w1 = plotting_func_kwargs w"
    using load_loop_keeps [OF loop] by simp
  have kw: "plotting_func_kwargs w' =
            default_kwargs colorscale (length es) (plotting_func_kwargs w)"
    using w' kw1 by simp
  show ?thesis
    unfolding kw by (auto simp: default_kwargs_apply split: option.splits)
qed

subsection \<open>Further facts used by the claims\<close>

lemma load_experiment_data_after_loop:
  assumes "experiments w = Some es"
    and "load_loop (w\<lparr>data_df := None\<rparr>) es = (None, w1)"
  shows "load_experiment_data colorscale w =
           (check_found (w1\<lparr>plotting_func_kwargs :=
               default_kwargs colorscale (length es) (plotting_func_kwargs w1)\<rparr>),
            w1\<lparr>plotting_func_kwargs :=
               default_kwargs colorscale (length es) (plotting_func_kwargs w1)\<rparr>)"
  using assms by (simp add: load_experiment_data_def Let_def)

text \<open>
  The final check on an empty combined table. When every frame that was loaded has no
  row, line 127 finds \<^verbatim>\<open>self.data_df.empty\<close> true and line 128 raises the exception with
  the message; the bare \<^verbatim>\<open>except\<close> of line 129 catches it, and line 130 asks for the
  truth value of \<^verbatim>\<open>self.data_df == None\<close>, a frame: the method ends with a
  \<^verbatim>\<open>ValueError\<close>, not with the message of line 128.
\<close>

lemma empty_frame_raises_value_error:
  "fst (load_experiment_data sample_colorscale
          (sample_widget [unlogged ''a'', logged ''b'' ''loss'' empty_frame])) =
     Some ValueError"
  by code_simp

lemma plotted_table_select:
  assumes "plotted_table w ids = Inr tbl"
  shows "\<exists>df. data_df w = Some df \<and>
           tbl = df\<lparr>rows := filter (\<lambda>(l, r). \<exists>i\<in>set ids. r ''experiment_id'' = Some (StrC i))
                               (rows df)\<rparr>"
proof -
  from plotted_table_Inr [OF assms] obtain df where df: "data_df w = Some df"
    and c: "columns tbl = columns df"
    and r: "rows tbl = filter (\<lambda>(l, r). \<exists>i\<in>set ids. r ''experiment_id'' = Some (StrC i)) (rows df)"
    by auto
  from c r have "tbl = df\<lparr>rows := filter (\<lambda>(l, r). \<exists>i\<in>set ids. r ''experiment_id'' = Some (StrC i))
                               (rows df)\<rparr>"
    by simp
  with df show ?thesis by simp
qed

lemma sample_loaded_two_fields [simp]:
  "dataframe_name sample_loaded_two = ''loss''"
  "experiments sample_loaded_two =
     Some [logged ''alpha-0123456789'' ''loss'' (sample_frame 3),
           logged ''beta-0123456789'' ''loss'' (sample_frame 7)]"
  "plotting_func sample_loaded_two = sample_plot"
  using load_experiment_data_keeps
     [of sample_colorscale
         "sample_widget [logged ''alpha-0123456789'' ''loss'' (sample_frame 3),
                         logged ''beta-0123456789'' ''loss'' (sample_frame 7)]"]
  by (simp_all add: sample_loaded_two_def)

section \<open>The claims\<close>

text \<open>
  C1. When no experiment of the list yields a dataframe of the configured name (every
  \<^verbatim>\<open>experiment.dataframe(name=...)\<close> raises), \<^verbatim>\<open>load_experiment_data\<close> raises the
  exception "No dataframe with name ... found!", and the combined table is \<^verbatim>\<open>None\<close>
  when it does.
\<close>

theorem load_raises_when_no_fetch_succeeds:
  assumes "experiments w = Some es"
    and "\<forall>e\<in>set es. isl (dataframe e (dataframe_name w))"
  shows "fst (load_experiment_data colorscale w) =
           Some (Exception (''No dataframe with name '' @ dataframe_name w @ '' found!'')) \<and>
         data_df (snd (load_experiment_data colorscale w)) = None"
proof -
  let ?w0 = "w\<lparr>data_df := None\<rparr>"
  have "\<forall>e\<in>set es. isl (dataframe e (dataframe_name ?w0))"
    using assms(2) by simp
  from load_loop_all_fail [OF this]
  have loop: "load_loop ?w0 es =
      (None, ?w0\<lparr>emitted_warnings := emitted_warnings ?w0 @ map warning_text es\<rparr>)" .
  show ?thesis
    using assms(1) loop
    by (simp add: load_experiment_data_def check_found_def try_empty_def not_found_text_def)
qed

theorem load_raises_when_no_fetch_succeeds_witness:
  "fst (load_experiment_data sample_colorscale (sample_widget [unlogged ''a'', unlogged ''b''])) =
     Some (Exception ''No dataframe with name loss found!'') \<and>
   data_df (snd (load_experiment_data sample_colorscale
                   (sample_widget [unlogged ''a'', unlogged ''b'']))) = None"
  using load_raises_when_no_fetch_succeeds
          [of "sample_widget [unlogged ''a'', unlogged ''b'']"
              "[unlogged ''a'', unlogged ''b'']" sample_colorscale]
  by (simp add: sample_widget_def unlogged_def)

text \<open>
  C2. Let every experiment of the list deliver a frame of the configured name, all with
  the same column labels. After \<^verbatim>\<open>load_experiment_data\<close> has returned, the combined
  table has as many rows as the frames have together; its rows are the rows of the
  frames, experiment by experiment in the order of the list, each with the identifier of
  its experiment in column \<^verbatim>\<open>experiment_id\<close>; and its columns are the shared ones with
  \<^verbatim>\<open>experiment_id\<close> (appended when the frames did not have it).
\<close>

theorem combined_table_of_identical_schemas:
  assumes "experiments w = Some es"
    and "\<forall>e\<in>set es. \<exists>t. fetched_table (dataframe_name w) e = Some t \<and> columns t = cs"
    and "load_experiment_data colorscale w = (None, w')"
  shows "\<exists>df. data_df w' = Some df \<and>
           length (rows df) = sum_list (map (num_rows (dataframe_name w)) es) \<and>
           map snd (rows df) = concat (map (contributed_rows (dataframe_name w)) es) \<and>
           map (\<lambda>(l, r). r ''experiment_id'') (rows df) =
             concat (map (\<lambda>e. replicate (num_rows (dataframe_name w) e)
                                 (Some (StrC (exp_id e)))) es) \<and>
           columns df = (if ''experiment_id'' \<in> set cs then cs else cs @ [''experiment_id''])"
proof -
  let ?name = "dataframe_name w"
  let ?w0 = "w\<lparr>data_df := None\<rparr>"
  let ?tcs = "if ''experiment_id'' \<in> set cs then cs else cs @ [''experiment_id'']"
  from load_experiment_data_returns [OF assms(3)] assms(1)
  obtain w1 where loop: "load_loop ?w0 es = (None, w1)"
    and w': "w' = w1\<lparr>plotting_func_kwargs :=
                   default_kwargs colorscale (length es) (plotting_func_kwargs w1)\<rparr>"
    and found: "check_found w' = None"
    by auto
  from check_found_None [OF found] obtain df where df: "data_df w' = Some df" by auto
  with w' have df1: "data_df w1 = Some df" by simp
  have rows_eq: "map snd (rows df) = concat (map (contributed_rows ?name) es)"
    using load_loop_rows [OF loop] df1 by (simp add: df_rows_def)
  have "length (map snd (rows df)) = sum_list (map (num_rows ?name) es)"
    unfolding rows_eq by (simp add: length_concat comp_def)
  then have len: "length (rows df) = sum_list (map (num_rows ?name) es)" by simp
  have "map (\<lambda>r. r ''experiment_id'') (map snd (rows df)) =
        concat (map (\<lambda>e. replicate (num_rows ?name e) (Some (StrC (exp_id e)))) es)"
    unfolding rows_eq by (simp add: map_concat comp_def id_of_contributed_rows)
  then have ids: "map (\<lambda>(l, r). r ''experiment_id'') (rows df) =
        concat (map (\<lambda>e. replicate (num_rows ?name e) (Some (StrC (exp_id e)))) es)"
    by (simp add: comp_def case_prod_unfold)
  have "\<forall>e\<in>set es. isl (dataframe e (dataframe_name ?w0)) \<or>
         (\<exists>t. fetched_table (dataframe_name ?w0) e = Some t \<and>
              columns (set_column t ''experiment_id'' (StrC (exp_id e))) = ?tcs)"
  proof
    fix e assume "e \<in> set es"
    with assms(2) obtain t where "fetched_table (dataframe_name w) e = Some t" "columns t = cs"
      by auto
    then have "fetched_table (dataframe_name ?w0) e = Some t \<and>
              columns (set_column t ''experiment_id'' (StrC (exp_id e))) = ?tcs"
      by (simp add: columns_set_column)
    then show "isl (dataframe e (dataframe_name ?w0)) \<or>
         (\<exists>t. fetched_table (dataframe_name ?w0) e = Some t \<and>
              columns (set_column t ''experiment_id'' (StrC (exp_id e))) = ?tcs)"
      by (intro disjI2 exI)
  qed
  from load_loop_columns [OF loop this] df1 have cols: "columns df = ?tcs" by simp
  show ?thesis
    using df len rows_eq ids cols by (intro exI [of _ df] conjI)
qed

theorem combined_table_of_identical_schemas_witness:
  "\<exists>df. data_df (snd (load_experiment_data sample_colorscale
            (sample_widget [logged ''a'' ''loss'' (sample_frame 3),
                            logged ''b'' ''loss'' (sample_frame 7)]))) = Some df \<and>
        length (rows df) = 4 \<and>
        map (\<lambda>(l, r). r ''experiment_id'') (rows df) =
          [Some (StrC ''a''), Some (StrC ''a''), Some (StrC ''b''), Some (StrC ''b'')] \<and>
        columns df = [''step'', ''loss'', ''experiment_id'']"
proof -
  let ?es = "[logged ''a'' ''loss'' (sample_frame 3), logged ''b'' ''loss'' (sample_frame 7)]"
  let ?w = "sample_widget ?es"
  have h1: "experiments ?w = Some ?es" by simp
  have h2: "\<forall>e\<in>set ?es. \<exists>t. fetched_table (dataframe_name ?w) e = Some t \<and>
              columns t = [''step'', ''loss'']"
    by simp
  have "\<exists>w1. load_loop (?w\<lparr>data_df := None\<rparr>) ?es = (None, w1) \<and>
          load_experiment_data sample_colorscale ?w =
            (None, w1\<lparr>plotting_func_kwargs :=
               default_kwargs sample_colorscale (length ?es) (plotting_func_kwargs w1)\<rparr>)"
    by (rule load_experiment_data_ok [OF h1])
       (simp_all add: y_inferable_def first_loaded_Cons tagged_table_def columns_set_column
          contributed_rows_def)
  then have h3: "load_experiment_data sample_colorscale ?w =
                   (None, snd (load_experiment_data sample_colorscale ?w))"
    by auto
  from combined_table_of_identical_schemas [OF h1 h2 h3]
  show ?thesis
    by (auto simp: num_rows_def replicate_two)
qed

text \<open>
  C4. When neither \<^verbatim>\<open>x\<close> nor \<^verbatim>\<open>y\<close> is configured, after \<^verbatim>\<open>load_experiment_data\<close>
  (however it ends) \<^verbatim>\<open>self.x\<close> and \<^verbatim>\<open>self.y\<close> are the first and the second column
  label of the frame of the first experiment whose fetch succeeds, as the loop holds that
  frame (tagged with \<^verbatim>\<open>experiment_id\<close>); they are the first two labels of the frame as
  logged when that has two columns. The experiments after it are arbitrary: their frames
  do not change the two attributes.
\<close>

theorem axes_inferred_from_first_loaded_frame:
  assumes "self_x w = None" and "self_y w = None"
    and "experiments w = Some es"
    and "first_loaded (dataframe_name w) es = Some e"
    and "fetched_table (dataframe_name w) e = Some t"
    and "columns (set_column t ''experiment_id'' (StrC (exp_id e))) = c0 # c1 # cs"
  shows "self_x (snd (load_experiment_data colorscale w)) = Some c0 \<and>
         self_y (snd (load_experiment_data colorscale w)) = Some c1 \<and>
         (2 \<le> length (columns t) \<longrightarrow> c0 = columns t ! 0 \<and> c1 = columns t ! 1)"
proof -
  let ?w0 = "w\<lparr>data_df := None\<rparr>"
  have "self_x (snd (load_loop ?w0 es)) = Some c0 \<and> self_y (snd (load_loop ?w0 es)) = Some c1"
    using assms by (intro load_loop_infers [where e = e and t = t and cs = cs]) simp_all
  with load_experiment_data_axes [OF assms(3), of colorscale]
  have xy: "self_x (snd (load_experiment_data colorscale w)) = Some c0 \<and>
            self_y (snd (load_experiment_data colorscale w)) = Some c1"
    by simp
  have "2 \<le> length (columns t) \<longrightarrow> c0 = columns t ! 0 \<and> c1 = columns t ! 1"
  proof
    assume two: "2 \<le> length (columns t)"
    then obtain a b rest where ct: "columns t = a # b # rest"
      by (cases "columns t"; cases "tl (columns t)") auto
    with assms(6) show "c0 = columns t ! 0 \<and> c1 = columns t ! 1"
      by (auto simp: columns_set_column split: if_splits)
  qed
  with xy show ?thesis by simp
qed

theorem axes_inferred_from_first_loaded_frame_witness:
  "self_x (snd (load_experiment_data sample_colorscale
      (sample_widget [unlogged ''b'', logged ''a'' ''loss'' (sample_frame 3),
                      logged ''c'' ''loss'' single_column_frame]))) = Some ''step'' \<and>
   self_y (snd (load_experiment_data sample_colorscale
      (sample_widget [unlogged ''b'', logged ''a'' ''loss'' (sample_frame 3),
                      logged ''c'' ''loss'' single_column_frame]))) = Some ''loss''"
proof -
  let ?es = "[unlogged ''b'', logged ''a'' ''loss'' (sample_frame 3),
              logged ''c'' ''loss'' single_column_frame]"
  let ?w = "sample_widget ?es"
  have h3: "experiments ?w = Some ?es" by simp
  have h4: "first_loaded (dataframe_name ?w) ?es = Some (logged ''a'' ''loss'' (sample_frame 3))"
    by (simp add: first_loaded_Cons)
  have h5: "fetched_table (dataframe_name ?w) (logged ''a'' ''loss'' (sample_frame 3)) =
            Some (sample_frame 3)" by simp
  have h6: "columns (set_column (sample_frame 3) ''experiment_id''
               (StrC (exp_id (logged ''a'' ''loss'' (sample_frame 3))))) =
            ''step'' # ''loss'' # [''experiment_id'']"
    by (simp add: columns_set_column)
  have h1: "self_x ?w = None" and h2: "self_y ?w = None" by simp_all
  from axes_inferred_from_first_loaded_frame [OF h1 h2 h3 h4 h5 h6, of sample_colorscale]
  show ?thesis by simp
qed

text \<open>
  C10. Whatever exception \<^verbatim>\<open>experiment.dataframe(name=...)\<close> raises, the pass of the
  loop for that experiment raises nothing: it emits the warning naming the experiment and
  leaves the widget otherwise as it was. An exception that leaves the loop comes from an
  experiment whose fetch returned (from \<^verbatim>\<open>get_data\<close>, or the \<^verbatim>\<open>IndexError\<close> of reading
  a column label), never from a fetch. When the loop ends normally, the warnings emitted
  are those of the experiments whose fetch raised, in order, and the rows collected are
  those of the other experiments.
\<close>

theorem fetch_exceptions_stay_in_the_loop:
  "(\<forall>ex. dataframe e (dataframe_name w) = Inl ex \<longrightarrow>
      load_one w e =
        (None, w\<lparr>emitted_warnings := emitted_warnings w @
           [''Experiment '' @ exp_id e @ '' does not have any dataframes logged to it.'']\<rparr>)) \<and>
   (\<forall>err w'. load_loop w es = (Some err, w') \<longrightarrow>
      (\<exists>e'\<in>set es. \<exists>d. dataframe e' (dataframe_name w) = Inr d \<and>
         (get_data d = Inl err \<or> err = IndexError))) \<and>
   (\<forall>w'. load_loop w es = (None, w') \<longrightarrow>
      emitted_warnings w' =
        emitted_warnings w @
          map (\<lambda>e'. ''Experiment '' @ exp_id e' @ '' does not have any dataframes logged to it.'')
            (filter (\<lambda>e'. isl (dataframe e' (dataframe_name w))) es) \<and>
      df_rows (data_df w') =
        df_rows (data_df w) @
          concat (map (contributed_rows (dataframe_name w))
            (filter (\<lambda>e'. \<not> isl (dataframe e' (dataframe_name w))) es)))"
proof (intro conjI allI impI)
  fix ex assume "dataframe e (dataframe_name w) = Inl ex"
  from load_one_fetch_fails [OF this]
  show "load_one w e =
        (None, w\<lparr>emitted_warnings := emitted_warnings w @
           [''Experiment '' @ exp_id e @ '' does not have any dataframes logged to it.'']\<rparr>)"
    by (simp add: warning_text_def)
next
  fix err w' assume "load_loop w es = (Some err, w')"
  from load_loop_raises [OF this]
  show "\<exists>e'\<in>set es. \<exists>d. dataframe e' (dataframe_name w) = Inr d \<and>
         (get_data d = Inl err \<or> err = IndexError)" .
next
  fix w' assume loop: "load_loop w es = (None, w')"
  have "map warning_text = map (\<lambda>e'. ''Experiment '' @ exp_id e' @
          '' does not have any dataframes logged to it.'')"
    by (simp add: warning_text_def fun_eq_iff)
  with load_loop_warnings [OF loop]
  show "emitted_warnings w' =
        emitted_warnings w @
          map (\<lambda>e'. ''Experiment '' @ exp_id e' @ '' does not have any dataframes logged to it.'')
            (filter (\<lambda>e'. isl (dataframe e' (dataframe_name w))) es)"
    by simp
next
  fix w' assume loop: "load_loop w es = (None, w')"
  have "concat (map (contributed_rows (dataframe_name w)) es) =
        concat (map (contributed_rows (dataframe_name w))
            (filter (\<lambda>e'. \<not> isl (dataframe e' (dataframe_name w))) es))"
    by (induction es) (simp_all add: contributed_rows_unfetched)
  with load_loop_rows [OF loop]
  show "df_rows (data_df w') =
        df_rows (data_df w) @
          concat (map (contributed_rows (dataframe_name w))
            (filter (\<lambda>e'. \<not> isl (dataframe e' (dataframe_name w))) es))"
    by simp
qed

theorem fetch_exceptions_stay_in_the_loop_witness:
  "emitted_warnings (snd (load_one (sample_widget []) (unlogged ''b''))) =
     [''Experiment b does not have any dataframes logged to it.''] \<and>
   fst (load_loop (sample_widget []) [unlogged ''b'', logged ''c'' ''loss'' single_column_frame]) =
     Some IndexError \<and>
   (\<exists>d. dataframe (logged ''c'' ''loss'' single_column_frame) ''loss'' = Inr d) \<and>
   emitted_warnings (snd (load_loop (sample_widget [])
       [unlogged ''b'', logged ''a'' ''loss'' (sample_frame 3)])) =
     [''Experiment b does not have any dataframes logged to it.'']"
proof -
  let ?w = "sample_widget []"
  let ?bad = "[unlogged ''b'', logged ''c'' ''loss'' single_column_frame]"
  let ?good = "[unlogged ''b'', logged ''a'' ''loss'' (sample_frame 3)]"
  note thm_bad = fetch_exceptions_stay_in_the_loop [of "unlogged ''b''" ?w ?bad]
  note thm_good = fetch_exceptions_stay_in_the_loop [of "unlogged ''b''" ?w ?good]
  have f: "dataframe (unlogged ''b'') (dataframe_name ?w) =
           Inl (RubiconException ''No dataframe found.'')"
    by (simp add: unlogged_def)
  from thm_bad f have one: "load_one ?w (unlogged ''b'') =
      (None, ?w\<lparr>emitted_warnings := emitted_warnings ?w @
         [''Experiment '' @ exp_id (unlogged ''b'') @
          '' does not have any dataframes logged to it.'']\<rparr>)"
    by blast
  let ?w1 = "?w\<lparr>emitted_warnings := emitted_warnings ?w @
         [''Experiment '' @ exp_id (unlogged ''b'') @
          '' does not have any dataframes logged to it.'']\<rparr>"
  have two: "fst (load_one ?w1 (logged ''c'' ''loss'' single_column_frame)) = Some IndexError"
    by (simp add: load_one_def logged_def infer_x_def infer_y_def py_index_def
          columns_set_column Let_def)
  have bad: "fst (load_loop ?w ?bad) = Some IndexError"
    using load_loop_Cons_pass [OF one] load_loop_Cons_raise [OF two] by simp
  then have "load_loop ?w ?bad = (Some IndexError, snd (load_loop ?w ?bad))"
    by (simp add: prod_eq_iff)
  with thm_bad have "\<exists>e'\<in>set ?bad. \<exists>d. dataframe e' (dataframe_name ?w) = Inr d \<and>
         (get_data d = Inl IndexError \<or> IndexError = IndexError)"
    by blast
  then have ex: "\<exists>d. dataframe (logged ''c'' ''loss'' single_column_frame) ''loss'' = Inr d"
    by (auto simp: unlogged_def)
  have "fst (load_loop ?w ?good) = None"
    by (rule load_loop_completes)
       (simp_all add: y_inferable_def first_loaded_Cons tagged_table_def columns_set_column)
  then have "load_loop ?w ?good = (None, snd (load_loop ?w ?good))"
    by (simp add: prod_eq_iff)
  with thm_good have "emitted_warnings (snd (load_loop ?w ?good)) =
        emitted_warnings ?w @
          map (\<lambda>e'. ''Experiment '' @ exp_id e' @ '' does not have any dataframes logged to it.'')
            (filter (\<lambda>e'. isl (dataframe e' (dataframe_name ?w))) ?good)"
    by blast
  then have good: "emitted_warnings (snd (load_loop ?w ?good)) =
     [''Experiment b does not have any dataframes logged to it.'']"
    by simp
  from one bad ex good show ?thesis by simp
qed

text \<open>
  C5. In every figure the callback returns, every trace has a name, and the name has at
  most 7 characters, whatever names the plotting routine gave.
\<close>

theorem legend_labels_at_most_seven:
  assumes "update_dataframe_plot bg link w args = Inr (fig, hdr)"
  shows "\<forall>t\<in>set (fig_data fig). \<exists>s. trace_name t = Some s \<and> length s \<le> 7"
proof -
  from update_dataframe_plot_Inr [OF assms]
  obtain fig0 traces where tr: "truncate_names 0 (fig_data fig0) = Inr traces"
    and fig: "fig = fig0\<lparr>margin_t := Some 30, plot_bgcolor := Some bg, fig_data := traces\<rparr>"
    by auto
  from truncate_names_short [OF tr] fig show ?thesis by simp
qed

theorem legend_labels_at_most_seven_witness:
  "update_dataframe_plot ''#E5ECF6'' False sample_loaded [None] =
     Inr (\<lparr>fig_data = [\<lparr>trace_name = Some ''run-012''\<rparr>, \<lparr>trace_name = Some ''run-012''\<rparr>],
           margin_t = Some 30, plot_bgcolor = Some ''#E5ECF6''\<rparr>,
          ''showing dataframe '' @ [CHR 0x27] @ ''loss'' @ [CHR 0x27] @ '' over 2 experiments'') \<and>
   (\<exists>s. trace_name \<lparr>trace_name = Some ''run-012''\<rparr> = Some s \<and> length s \<le> 7)"
proof -
  have h: "update_dataframe_plot ''#E5ECF6'' False sample_loaded [None] =
     Inr (\<lparr>fig_data = [\<lparr>trace_name = Some ''run-012''\<rparr>, \<lparr>trace_name = Some ''run-012''\<rparr>],
           margin_t = Some 30, plot_bgcolor = Some ''#E5ECF6''\<rparr>,
          ''showing dataframe '' @ [CHR 0x27] @ ''loss'' @ [CHR 0x27] @ '' over 2 experiments'')"
    by code_simp
  from legend_labels_at_most_seven [OF h]
  have "\<exists>s. trace_name \<lparr>trace_name = Some ''run-012''\<rparr> = Some s \<and> length s \<le> 7"
    by simp
  with h show ?thesis by (intro conjI)
qed

text \<open>
  C6. The header text the callback returns counts the active identifiers: it is
  "showing dataframe '<name>' over " followed by "1 experiment" when there is exactly
  one active identifier, and by the decimal count and " experiments" for every other
  count, zero included.
\<close>

theorem header_counts_active_ids:
  assumes "update_dataframe_plot bg link w args = Inr (fig, hdr)"
  shows "\<exists>ids. selected_row_ids link w args = Inr ids \<and>
           hdr = ''showing dataframe '' @ [CHR 0x27] @ dataframe_name w @ [CHR 0x27] @
                 '' over '' @
                 (if length ids = 1 then ''1 experiment''
                  else str_of_nat (length ids) @ '' experiments'')"
proof -
  from update_dataframe_plot_Inr [OF assms]
  obtain ids where ids: "selected_row_ids link w args = Inr ids"
    and hdr: "hdr = header_text (dataframe_name w) (length ids)"
    by auto
  have "header_text (dataframe_name w) (length ids) =
        ''showing dataframe '' @ [CHR 0x27] @ dataframe_name w @ [CHR 0x27] @
                 '' over '' @
                 (if length ids = 1 then ''1 experiment''
                  else str_of_nat (length ids) @ '' experiments'')"
    by (simp add: header_text_def str_of_nat_1)
  with ids hdr show ?thesis by simp
qed

theorem header_counts_active_ids_witness:
  "(\<exists>ids. selected_row_ids True sample_loaded [None, Some [''run-0123456789'']] = Inr ids \<and>
      ''showing dataframe '' @ [CHR 0x27] @ ''loss'' @ [CHR 0x27] @ '' over 1 experiment'' =
      ''showing dataframe '' @ [CHR 0x27] @ dataframe_name sample_loaded @ [CHR 0x27] @
        '' over '' @
        (if length ids = 1 then ''1 experiment''
         else str_of_nat (length ids) @ '' experiments'')) \<and>
   (\<exists>ids. selected_row_ids True sample_loaded [None, None] = Inr ids \<and>
      ''showing dataframe '' @ [CHR 0x27] @ ''loss'' @ [CHR 0x27] @ '' over 0 experiments'' =
      ''showing dataframe '' @ [CHR 0x27] @ dataframe_name sample_loaded @ [CHR 0x27] @
        '' over '' @
        (if length ids = 1 then ''1 experiment''
         else str_of_nat (length ids) @ '' experiments''))"
proof -
  have h1: "update_dataframe_plot ''#E5ECF6'' True sample_loaded
              [None, Some [''run-0123456789'']] =
     Inr (\<lparr>fig_data = [\<lparr>trace_name = Some ''run-012''\<rparr>, \<lparr>trace_name = Some ''run-012''\<rparr>],
           margin_t = Some 30, plot_bgcolor = Some ''#E5ECF6''\<rparr>,
          ''showing dataframe '' @ [CHR 0x27] @ ''loss'' @ [CHR 0x27] @ '' over 1 experiment'')"
    by code_simp
  have h0: "update_dataframe_plot ''#E5ECF6'' True sample_loaded [None, None] =
     Inr (\<lparr>fig_data = [], margin_t = Some 30, plot_bgcolor = Some ''#E5ECF6''\<rparr>,
          ''showing dataframe '' @ [CHR 0x27] @ ''loss'' @ [CHR 0x27] @ '' over 0 experiments'')"
    by code_simp
  from header_counts_active_ids [OF h1] header_counts_active_ids [OF h0]
  show ?thesis by (intro conjI)
qed

text \<open>
  C3 as stated fails when the frame that is loaded has a single column, here one already
  called \<^verbatim>\<open>experiment_id\<close>: of two experiments one fails to yield the dataframe and the
  other delivers it, with two rows; \<^verbatim>\<open>y\<close> is not configured, line 111 reads
  \<^verbatim>\<open>columns[1]\<close> and \<^verbatim>\<open>load_experiment_data\<close> raises \<^verbatim>\<open>IndexError\<close>.
\<close>

theorem one_column_frame_raises:
  "experiments (sample_widget [unlogged ''a'', logged ''b'' ''loss'' single_column_frame]) =
     Some ([] @ unlogged ''a'' # [logged ''b'' ''loss'' single_column_frame]) \<and>
   isl (dataframe (unlogged ''a'')
          (dataframe_name
             (sample_widget [unlogged ''a'', logged ''b'' ''loss'' single_column_frame]))) \<and>
   fetched_table ''loss'' (logged ''b'' ''loss'' single_column_frame) =
     Some single_column_frame \<and>
   length (rows single_column_frame) = 2 \<and>
   fst (load_experiment_data sample_colorscale
          (sample_widget [unlogged ''a'', logged ''b'' ''loss'' single_column_frame])) =
     Some IndexError"
proof -
  have "fst (load_experiment_data sample_colorscale
          (sample_widget [unlogged ''a'', logged ''b'' ''loss'' single_column_frame])) =
     Some IndexError"
    by code_simp
  moreover have "length (rows single_column_frame) = 2"
    by (simp add: single_column_frame_def)
  ultimately show ?thesis by simp
qed

text \<open>
  C3, as the code has it. Let exactly one experiment of the list fail to yield the named
  dataframe and every other one deliver a frame, at least one other being there, and let
  \<^verbatim>\<open>y\<close> be configured or the first frame loaded have two columns once tagged with
  \<^verbatim>\<open>experiment_id\<close>. Then the loop raises nothing; the combined table holds exactly the
  rows contributed by the other experiments, in order; one warning, naming the failing
  experiment, has been emitted; and \<^verbatim>\<open>load_experiment_data\<close> returns without raising
  when the combined table has a row. What the final check does with a combined table
  without rows is not part of this statement.
\<close>

theorem one_missing_dataframe_is_skipped:
  assumes "experiments w = Some (pre @ missing # post)"
    and "isl (dataframe missing (dataframe_name w))"
    and "\<forall>e\<in>set (pre @ post). fetched_table (dataframe_name w) e \<noteq> None"
    and "pre @ post \<noteq> []"
    and "self_y w \<noteq> None \<or> y_inferable (dataframe_name w) (pre @ post)"
  shows "fst (load_loop (w\<lparr>data_df := None\<rparr>) (pre @ missing # post)) = None \<and>
         (\<exists>df. data_df (snd (load_experiment_data colorscale w)) = Some df \<and>
            map snd (rows df) =
              concat (map (contributed_rows (dataframe_name w)) (pre @ post)) \<and>
            (rows df \<noteq> [] \<longrightarrow> fst (load_experiment_data colorscale w) = None)) \<and>
         emitted_warnings (snd (load_experiment_data colorscale w)) =
           emitted_warnings w @
             [''Experiment '' @ exp_id missing @ '' does not have any dataframes logged to it.'']"
proof -
  let ?name = "dataframe_name w"
  let ?es = "pre @ missing # post"
  let ?w0 = "w\<lparr>data_df := None\<rparr>"
  have a: "\<forall>e\<in>set ?es. isl (dataframe e (dataframe_name ?w0)) \<or>
             fetched_table (dataframe_name ?w0) e \<noteq> None"
    using assms(2,3) by auto
  have b: "self_y ?w0 \<noteq> None \<or> y_inferable (dataframe_name ?w0) ?es"
    using assms(5) by (simp add: y_inferable_skip [OF assms(2)])
  have loop_ok: "fst (load_loop ?w0 ?es) = None"
    by (rule load_loop_completes [OF a b])
  then obtain w1 where loop: "load_loop ?w0 ?es = (None, w1)"
    by (cases "load_loop ?w0 ?es") simp
  let ?w2 = "w1\<lparr>plotting_func_kwargs :=
               default_kwargs colorscale (length ?es) (plotting_func_kwargs w1)\<rparr>"
  have res: "load_experiment_data colorscale w = (check_found ?w2, ?w2)"
    by (rule load_experiment_data_after_loop [OF assms(1) loop])
  have contrib: "concat (map (contributed_rows ?name) ?es) =
                 concat (map (contributed_rows ?name) (pre @ post))"
    by (simp add: contributed_rows_unfetched [OF assms(2)])
  have rows_eq: "df_rows (data_df w1) = concat (map (contributed_rows ?name) (pre @ post))"
    using load_loop_rows [OF loop] contrib by (simp add: df_rows_def)
  from assms(4) obtain e where e: "e \<in> set (pre @ post)"
    by (cases "pre @ post") auto
  with assms(3) obtain t where "fetched_table ?name e = Some t" by auto
  then have "\<not> isl (dataframe e ?name)" by (rule fetched_not_isl)
  moreover from e have "e \<in> set ?es" by auto
  ultimately have "data_df w1 \<noteq> None"
    using load_loop_unset [OF loop] by auto
  then obtain df where df: "data_df w1 = Some df" by auto
  have "''experiment_id'' \<in> set (columns df)"
    using load_loop_has_id_column [OF loop] df by simp
  then have cols: "columns df \<noteq> []" by auto
  have ok: "rows df \<noteq> [] \<longrightarrow> check_found ?w2 = None"
    using df cols by (auto intro: check_found_ok [where df = df])
  have pre_ok: "filter (\<lambda>e. isl (dataframe e ?name)) pre = []"
    using assms(3) by (intro filter_unfetched_none) simp
  have post_ok: "filter (\<lambda>e. isl (dataframe e ?name)) post = []"
    using assms(3) by (intro filter_unfetched_none) simp
  have warn: "emitted_warnings w1 = emitted_warnings w @ [warning_text missing]"
    using load_loop_warnings [OF loop] pre_ok post_ok assms(2) by simp
  have tab: "data_df (snd (load_experiment_data colorscale w)) = Some df \<and>
            map snd (rows df) = concat (map (contributed_rows ?name) (pre @ post)) \<and>
            (rows df \<noteq> [] \<longrightarrow> fst (load_experiment_data colorscale w) = None)"
    using res df rows_eq ok by (simp add: df_rows_def)
  have "emitted_warnings (snd (load_experiment_data colorscale w)) =
           emitted_warnings w @
             [''Experiment '' @ exp_id missing @ '' does not have any dataframes logged to it.'']"
    using res warn by (simp add: warning_text_def)
  with loop_ok tab show ?thesis by blast
qed

theorem one_missing_dataframe_is_skipped_witness:
  "fst (load_experiment_data sample_colorscale
          (sample_widget [logged ''a'' ''loss'' (sample_frame 3), unlogged ''b'',
                          logged ''c'' ''loss'' (sample_frame 7)])) = None \<and>
   (\<exists>df. data_df (snd (load_experiment_data sample_colorscale
              (sample_widget [logged ''a'' ''loss'' (sample_frame 3), unlogged ''b'',
                              logged ''c'' ''loss'' (sample_frame 7)]))) = Some df \<and>
         length (rows df) = 4) \<and>
   emitted_warnings (snd (load_experiment_data sample_colorscale
          (sample_widget [logged ''a'' ''loss'' (sample_frame 3), unlogged ''b'',
                          logged ''c'' ''loss'' (sample_frame 7)]))) =
     [''Experiment b does not have any dataframes logged to it.'']"
proof -
  let ?pre = "[logged ''a'' ''loss'' (sample_frame 3)]"
  let ?post = "[logged ''c'' ''loss'' (sample_frame 7)]"
  let ?w = "sample_widget (?pre @ unlogged ''b'' # ?post)"
  have h1: "experiments ?w = Some (?pre @ unlogged ''b'' # ?post)" by simp
  have h2: "isl (dataframe (unlogged ''b'') (dataframe_name ?w))" by simp
  have h3: "\<forall>e\<in>set (?pre @ ?post). fetched_table (dataframe_name ?w) e \<noteq> None" by simp
  have h4: "?pre @ ?post \<noteq> []" by simp
  have h5: "self_y ?w \<noteq> None \<or> y_inferable (dataframe_name ?w) (?pre @ ?post)"
    by (simp add: y_inferable_def first_loaded_Cons tagged_table_def columns_set_column)
  from one_missing_dataframe_is_skipped [OF h1 h2 h3 h4 h5, of sample_colorscale]
  obtain df where r: "data_df (snd (load_experiment_data sample_colorscale ?w)) = Some df"
    "map snd (rows df) = concat (map (contributed_rows (dataframe_name ?w)) (?pre @ ?post))"
    "rows df \<noteq> [] \<longrightarrow> fst (load_experiment_data sample_colorscale ?w) = None"
    "emitted_warnings (snd (load_experiment_data sample_colorscale ?w)) =
       emitted_warnings ?w @
       [''Experiment '' @ exp_id (unlogged ''b'') @ '' does not have any dataframes logged to it.'']"
    by blast
  have "length (map snd (rows df)) = 4"
    unfolding r(2) by (simp add: num_rows_def)
  then have len: "length (rows df) = 4" by simp
  then have "rows df \<noteq> []" by auto
  with r(3) have "fst (load_experiment_data sample_colorscale ?w) = None" by simp
  with r(1,4) len show ?thesis by simp
qed

text \<open>
  C7. The active identifiers are the last argument of the callback when the widget is
  linked to the experiment table, \<^verbatim>\<open>None\<close> counting as the empty list, and the
  identifiers of all the configured experiments otherwise. Whenever the callback returns,
  what it returns is the figure that the plotting routine made of the table with the
  columns of the combined table and exactly those of its rows, in order, whose
  \<^verbatim>\<open>experiment_id\<close> is an active identifier (with the margin, the background and the
  shortened names set), together with the header text for the number of active
  identifiers.
\<close>

theorem active_ids_and_plotted_rows:
  "(link \<and> args \<noteq> [] \<longrightarrow>
      selected_row_ids link w args =
        Inr (case last args of None \<Rightarrow> [] | Some sel \<Rightarrow> sel)) \<and>
   (\<not> link \<and> experiments w = Some es \<longrightarrow>
      selected_row_ids link w args = Inr (map exp_id es)) \<and>
   (update_dataframe_plot bg link w args = Inr out \<longrightarrow>
      (\<exists>ids df fig0 traces.
         selected_row_ids link w args = Inr ids \<and>
         data_df w = Some df \<and>
         plotted_table w ids =
           Inr (df\<lparr>rows := filter (\<lambda>(l, r). \<exists>i\<in>set ids. r ''experiment_id'' = Some (StrC i))
                               (rows df)\<rparr>) \<and>
         plotting_func w
           (df\<lparr>rows := filter (\<lambda>(l, r). \<exists>i\<in>set ids. r ''experiment_id'' = Some (StrC i))
                          (rows df)\<rparr>)
           (self_x w) (self_y w) (plotting_func_kwargs w) = Inr fig0 \<and>
         truncate_names 0 (fig_data fig0) = Inr traces \<and>
         out = (fig0\<lparr>margin_t := Some 30, plot_bgcolor := Some bg, fig_data := traces\<rparr>,
                header_text (dataframe_name w) (length ids))))"
proof (intro conjI impI)
  assume "link \<and> args \<noteq> []"
  then show "selected_row_ids link w args =
        Inr (case last args of None \<Rightarrow> [] | Some sel \<Rightarrow> sel)"
    by (simp add: selected_row_ids_def split: option.splits)
next
  assume "\<not> link \<and> experiments w = Some es"
  then show "selected_row_ids link w args = Inr (map exp_id es)"
    by (simp add: selected_row_ids_def)
next
  assume "update_dataframe_plot bg link w args = Inr out"
  from update_dataframe_plot_Inr [OF this]
  obtain ids tbl fig0 traces where a: "selected_row_ids link w args = Inr ids"
    "plotted_table w ids = Inr tbl"
    "plotting_func w tbl (self_x w) (self_y w) (plotting_func_kwargs w) = Inr fig0"
    "truncate_names 0 (fig_data fig0) = Inr traces"
    "out = (fig0\<lparr>margin_t := Some 30, plot_bgcolor := Some bg, fig_data := traces\<rparr>,
            header_text (dataframe_name w) (length ids))"
    by blast
  from plotted_table_select [OF a(2)] obtain df where b: "data_df w = Some df"
    "tbl = df\<lparr>rows := filter (\<lambda>(l, r). \<exists>i\<in>set ids. r ''experiment_id'' = Some (StrC i))
                               (rows df)\<rparr>"
    by blast
  show "\<exists>ids df fig0 traces.
         selected_row_ids link w args = Inr ids \<and>
         data_df w = Some df \<and>
         plotted_table w ids =
           Inr (df\<lparr>rows := filter (\<lambda>(l, r). \<exists>i\<in>set ids. r ''experiment_id'' = Some (StrC i))
                               (rows df)\<rparr>) \<and>
         plotting_func w
           (df\<lparr>rows := filter (\<lambda>(l, r). \<exists>i\<in>set ids. r ''experiment_id'' = Some (StrC i))
                          (rows df)\<rparr>)
           (self_x w) (self_y w) (plotting_func_kwargs w) = Inr fig0 \<and>
         truncate_names 0 (fig_data fig0) = Inr traces \<and>
         out = (fig0\<lparr>margin_t := Some 30, plot_bgcolor := Some bg, fig_data := traces\<rparr>,
                header_text (dataframe_name w) (length ids))"
    using a b by (intro exI [of _ ids] exI [of _ df] exI [of _ fig0] exI [of _ traces]) simp
qed

theorem active_ids_and_plotted_rows_witness:
  "selected_row_ids True sample_loaded_two [None, Some [''beta-0123456789'']] =
     Inr [''beta-0123456789''] \<and>
   selected_row_ids True sample_loaded_two [None, None] = Inr [] \<and>
   selected_row_ids False sample_loaded_two [None] =
     Inr [''alpha-0123456789'', ''beta-0123456789''] \<and>
   (\<exists>df fig0 traces.
      data_df sample_loaded_two = Some df \<and> length (rows df) = 4 \<and>
      sample_plot
        (df\<lparr>rows := filter (\<lambda>(l, r). r ''experiment_id'' = Some (StrC ''beta-0123456789''))
                       (rows df)\<rparr>)
        (self_x sample_loaded_two) (self_y sample_loaded_two)
        (plotting_func_kwargs sample_loaded_two) = Inr fig0 \<and>
      truncate_names 0 (fig_data fig0) = Inr traces \<and>
      traces = [\<lparr>trace_name = Some ''beta-01''\<rparr>, \<lparr>trace_name = Some ''beta-01''\<rparr>])"
proof -
  let ?es = "[logged ''alpha-0123456789'' ''loss'' (sample_frame 3),
              logged ''beta-0123456789'' ''loss'' (sample_frame 7)]"
  let ?F = "\<lparr>fig_data = [\<lparr>trace_name = Some ''beta-01''\<rparr>, \<lparr>trace_name = Some ''beta-01''\<rparr>],
           margin_t = Some 30, plot_bgcolor = Some ''#E5ECF6''\<rparr>"
  let ?H = "''showing dataframe '' @ [CHR 0x27] @ ''loss'' @ [CHR 0x27] @ '' over 1 experiment''"
  note a = active_ids_and_plotted_rows
             [of True "[None, Some [''beta-0123456789'']]" sample_loaded_two ?es "''#E5ECF6''"
                 "(?F, ?H)"]
  note n = active_ids_and_plotted_rows
             [of True "[None, None]" sample_loaded_two ?es "''#E5ECF6''" "(?F, ?H)"]
  note b = active_ids_and_plotted_rows
             [of False "[None]" sample_loaded_two ?es "''#E5ECF6''" "(?F, ?H)"]
  have 1: "selected_row_ids True sample_loaded_two [None, Some [''beta-0123456789'']] =
             Inr [''beta-0123456789'']"
    using a by simp
  have 2: "selected_row_ids True sample_loaded_two [None, None] = Inr []"
    using n by simp
  have 3: "selected_row_ids False sample_loaded_two [None] =
             Inr [''alpha-0123456789'', ''beta-0123456789'']"
    using b by simp
  have h: "update_dataframe_plot ''#E5ECF6'' True sample_loaded_two
              [None, Some [''beta-0123456789'']] = Inr (?F, ?H)"
    by code_simp
  have len: "map_option (\<lambda>df. length (rows df)) (data_df sample_loaded_two) = Some 4"
    by code_simp
  from a h obtain ids df fig0 traces where c:
    "selected_row_ids True sample_loaded_two [None, Some [''beta-0123456789'']] = Inr ids"
    "data_df sample_loaded_two = Some df"
    "plotting_func sample_loaded_two
       (df\<lparr>rows := filter (\<lambda>(l, r). \<exists>i\<in>set ids. r ''experiment_id'' = Some (StrC i))
                      (rows df)\<rparr>)
       (self_x sample_loaded_two) (self_y sample_loaded_two)
       (plotting_func_kwargs sample_loaded_two) = Inr fig0"
    "truncate_names 0 (fig_data fig0) = Inr traces"
    "(?F, ?H) = (fig0\<lparr>margin_t := Some 30, plot_bgcolor := Some ''#E5ECF6'', fig_data := traces\<rparr>,
                header_text (dataframe_name sample_loaded_two) (length ids))"
    by blast
  from c(1) 1 have ids: "ids = [''beta-0123456789'']" by simp
  from c(5) have tr: "traces = [\<lparr>trace_name = Some ''beta-01''\<rparr>, \<lparr>trace_name = Some ''beta-01''\<rparr>]"
    by (cases fig0) simp
  from len c(2) have l4: "length (rows df) = 4" by simp
  have 4: "\<exists>df fig0 traces.
      data_df sample_loaded_two = Some df \<and> length (rows df) = 4 \<and>
      sample_plot
        (df\<lparr>rows := filter (\<lambda>(l, r). r ''experiment_id'' = Some (StrC ''beta-0123456789''))
                       (rows df)\<rparr>)
        (self_x sample_loaded_two) (self_y sample_loaded_two)
        (plotting_func_kwargs sample_loaded_two) = Inr fig0 \<and>
      truncate_names 0 (fig_data fig0) = Inr traces \<and>
      traces = [\<lparr>trace_name = Some ''beta-01''\<rparr>, \<lparr>trace_name = Some ''beta-01''\<rparr>]"
    using c(2,3,4) ids tr l4
    by (intro exI [of _ df] exI [of _ fig0] exI [of _ traces]) simp
  from 1 2 3 4 show ?thesis by (intro conjI)
qed

text \<open>
  C8 fails on the code for widgets built without keyword options. Both widgets below
  refer to the one dictionary of the default of line 51. Loading the first, of two
  experiments, writes a sequence of two colours into that dictionary. When the second, of
  three experiments, is loaded, line 122 finds the key present: after the load its
  keyword options hold the sequence of two colours, which nobody configured, and not the
  one computed from its three experiments.
\<close>

theorem shared_default_dictionary_keeps_colours:
  "kwargs_addr first_plot = default_kwargs_addr \<and>
   kwargs_addr second_plot = default_kwargs_addr \<and>
   fresh_store default_kwargs_addr ''color_discrete_sequence'' = None \<and>
   map_option length (experiments (attrs second_plot)) = Some 3 \<and>
   fst second_loaded = None \<and>
   plotting_func_kwargs (deref (fst (snd second_loaded)) (snd (snd second_loaded)))
     ''color_discrete_sequence'' =
     Some (SeqArg [''rgb(0, 0, 255)'', ''rgb(0, 0, 255)'']) \<and>
   sample_colorscale 3 = [''rgb(0, 0, 255)'', ''rgb(0, 0, 255)'', ''rgb(0, 0, 255)'']"
  by code_simp

end
